theory Spec2Isabelle
  imports Complex_Main
begin

section \<open>The timeseries display of act/plotting/plot.py\<close>

text \<open>
  The class \<^verbatim>\<open>TimeSeriesDisplay\<close> is a plot session over one dataset. Its methods
  mutate the session and may raise; a method is modelled as a function from the session
  to an outcome (the error raised, or the value returned) together with the session as
  the method leaves it, so that whatever was assigned before a \<^verbatim>\<open>raise\<close> stays assigned.
\<close>

subsection \<open>Values, errors and the dataset\<close>

text \<open>
  A time sample is a count of nanoseconds since the epoch (numpy's datetime64[ns]); a
  calendar date is a count of days since the epoch (datetime64[D]).
\<close>

type_synonym time = int
type_synonym date = int

definition ns_per_day :: int where
  "ns_per_day = 86400000000000"

text \<open>The day a time sample falls on: the cast to days rounds down.\<close>

definition day_of :: "time \<Rightarrow> date" where
  "day_of t = t div ns_per_day"

text \<open>
  A value on the x axis: a time sample or a number, as the coordinate of the first
  dimension holds them.
\<close>

datatype xval = XTime time | XNum real

text \<open>
  The cast of an x value to datetime64[D] in \<^verbatim>\<open>np.array(xrng, dtype='datetime64[D]')\<close>:
  a time sample is cut down to its day; a number, which \<^verbatim>\<open>plot\<close> passes as a
  numpy value, is cut to its integer part and read as a count of days.
\<close>

fun to_day :: "xval \<Rightarrow> date" where
  "to_day (XTime t) = day_of t"
| "to_day (XNum x) = (if 0 \<le> x then \<lfloor>x\<rfloor> else \<lceil>x\<rceil>)"

datatype error =
    RuntimeError string
  | ValueError string
  | IndexError
  | KeyError
  | TypeError
  | AttributeError

datatype pyval = PyNone | PyStr string

text \<open>Python's \<^verbatim>\<open>str\<close> on a value that is a string or \<^verbatim>\<open>None\<close>.\<close>

fun py_str :: "pyval \<Rightarrow> pyval" where
  "py_str PyNone = PyStr ''None''"
| "py_str (PyStr s) = PyStr s"

text \<open>
  The values of a variable: a one-dimensional array of time samples or of numbers, a
  two-dimensional array of numbers, or a number of no dimension.
\<close>

datatype ndarray = Times "time list" | Nums "real list" | Grid "real list list" | Scal real

record variable =
  dims :: "string list"
  units :: "string option"
  vals :: ndarray

text \<open>
  The dataset: its named variables, the sizes of its dimensions, the datastream label
  and the covered dates kept by the \<^verbatim>\<open>act\<close> accessor, and the label found along
  the alternate path \<^verbatim>\<open>_arm.act._obj.act.datastream\<close>.
\<close>

record dataset =
  variables :: "string \<Rightarrow> variable option"
  dim_sizes :: "string \<Rightarrow> nat option"
  act_datastream :: pyval
  fallback_datastream :: pyval
  act_file_dates :: "date list"

subsection \<open>The plotting backend\<close>

datatype artist =
    Span time time string
  | VLine time string string
  | Markers ndarray ndarray string
  | Mesh ndarray ndarray ndarray "string option" "real option" "real option"

datatype title = Title string | AutoTitle string string date

text \<open>
  An axis handle, with what the display sets on it. \<open>xlim\<close> and \<open>ylim\<close> are \<open>None\<close>
  while the backend chooses the limits itself.
\<close>

record axis =
  facecolor :: "string option"
  artists :: "artist list"
  ax_title :: "title option"
  ylabel :: "string option"
  xlim :: "(xval \<times> xval) option"
  ylim :: "(real \<times> real) option"
  major_formatter :: "string option"

definition new_axis :: axis where
  "new_axis = \<lparr>facecolor = None, artists = [], ax_title = None, ylabel = None,
     xlim = None, ylim = None, major_formatter = None\<rparr>"

text \<open>
  What \<^verbatim>\<open>self.axes\<close> can hold: a bare handle, or a one- or two-dimensional array of
  handles.
\<close>

datatype axes_val = Bare axis | Arr1 "axis list" | Arr2 "axis list list"

text \<open>
  \<^verbatim>\<open>plt.subplots(nrows, ncols)\<close> with the backend's default layout options: a single
  cell comes back as a bare handle, a single row or column as a one-dimensional array,
  anything else as a two-dimensional array; a count that is not positive is refused.
\<close>

definition plt_subplots :: "int \<Rightarrow> int \<Rightarrow> error + axes_val" where
  "plt_subplots nrows ncols =
     (if nrows \<le> 0 \<or> ncols \<le> 0 then Inl (ValueError ''Number of rows and columns must be positive'')
      else if nrows = 1 \<and> ncols = 1 then Inr (Bare new_axis)
      else if nrows = 1 then Inr (Arr1 (replicate (nat ncols) new_axis))
      else if ncols = 1 then Inr (Arr1 (replicate (nat nrows) new_axis))
      else Inr (Arr2 (replicate (nat nrows) (replicate (nat ncols) new_axis))))"

text \<open>
  \<^verbatim>\<open>np.array([ax])\<close>: one more dimension around what it is given. The display
  wraps only what the backend returned for a single cell, which is a bare handle; a
  two-dimensional array would gain a third dimension, which the model does not
  represent and leaves as it is.
\<close>

fun np_array1 :: "axes_val \<Rightarrow> axes_val" where
  "np_array1 (Bare a) = Arr1 [a]"
| "np_array1 (Arr1 xs) = Arr2 [xs]"
| "np_array1 (Arr2 rows) = Arr2 rows"

text \<open>
  The auxiliary axes a figure has been given for colorbars, each named by the subplot
  index it sits to the right of.
\<close>

record figure =
  colorbar_axes :: "int list list"

definition new_figure :: figure where
  "new_figure = \<lparr>colorbar_axes = []\<rparr>"

text \<open>
  \<^verbatim>\<open>self.fig\<close> is \<^verbatim>\<open>None\<close>, a figure, or an attribute that \<^verbatim>\<open>del\<close> has removed.
\<close>

datatype fig_attr = FigDeleted | FigNone | Fig figure

record colorbar =
  cb_mappable :: artist
  cb_title :: "string option"
  cb_anchor :: "int list"

subsection \<open>Indexing\<close>

text \<open>An index into an axis of length \<open>n\<close>; a negative index counts from the end.\<close>

definition norm_index :: "nat \<Rightarrow> int \<Rightarrow> error + nat" where
  "norm_index n i =
     (if 0 \<le> i \<and> i < int n then Inr (nat i)
      else if - int n \<le> i \<and> i < 0 then Inr (nat (i + int n))
      else Inl IndexError)"

text \<open>Indexing an array with a tuple gives an element or a sub-array.\<close>

datatype 'a item = Elem 'a | Sub

fun axes_get :: "axes_val \<Rightarrow> int list \<Rightarrow> error + axis item" where
  "axes_get (Bare a) idx = Inl TypeError"
| "axes_get (Arr1 xs) [] = Inr Sub"
| "axes_get (Arr1 xs) [i] =
     (case norm_index (length xs) i of Inl e \<Rightarrow> Inl e | Inr k \<Rightarrow> Inr (Elem (xs ! k)))"
| "axes_get (Arr1 xs) (i # j # rest) = Inl IndexError"
| "axes_get (Arr2 rows) [] = Inr Sub"
| "axes_get (Arr2 rows) [i] =
     (case norm_index (length rows) i of Inl e \<Rightarrow> Inl e | Inr k \<Rightarrow> Inr Sub)"
| "axes_get (Arr2 rows) [i, j] =
     (case norm_index (length rows) i of Inl e \<Rightarrow> Inl e
      | Inr k \<Rightarrow> (case norm_index (length (rows ! k)) j of Inl e \<Rightarrow> Inl e
                 | Inr l \<Rightarrow> Inr (Elem (rows ! k ! l))))"
| "axes_get (Arr2 rows) (i # j # l # rest) = Inl IndexError"

text \<open>The array with \<open>f\<close> applied to the handle that \<open>axes_get\<close> finds at the index.\<close>

fun axes_upd :: "axes_val \<Rightarrow> int list \<Rightarrow> (axis \<Rightarrow> axis) \<Rightarrow> axes_val" where
  "axes_upd (Arr1 xs) [i] f =
     (case norm_index (length xs) i of Inl e \<Rightarrow> Arr1 xs | Inr k \<Rightarrow> Arr1 (xs[k := f (xs ! k)]))"
| "axes_upd (Arr2 rows) [i, j] f =
     (case norm_index (length rows) i of Inl e \<Rightarrow> Arr2 rows
      | Inr k \<Rightarrow> (case norm_index (length (rows ! k)) j of Inl e \<Rightarrow> Arr2 rows
                 | Inr l \<Rightarrow> Arr2 (rows[k := (rows ! k)[l := f (rows ! k ! l)]])))"
| "axes_upd a idx f = a"

subsection \<open>The range stores\<close>

text \<open>
  A range store is an array of shape (rows, 2) or (rows, cols, 2); its last axis, of
  length two, is kept as a pair.
\<close>

datatype 'a store = Store1 "('a \<times> 'a) list" | Store2 "('a \<times> 'a) list list"

fun store_rows :: "'a store \<Rightarrow> nat" where
  "store_rows (Store1 rows) = length rows"
| "store_rows (Store2 rows) = length rows"

fun norm_all :: "nat \<Rightarrow> int list \<Rightarrow> error + nat list" where
  "norm_all n [] = Inr []"
| "norm_all n (i # rest) =
     (case norm_index n i of Inl e \<Rightarrow> Inl e
      | Inr k \<Rightarrow> (case norm_all n rest of Inl e \<Rightarrow> Inl e | Inr ks \<Rightarrow> Inr (k # ks)))"

fun set_row :: "'a \<times> 'a \<Rightarrow> nat \<Rightarrow> 'a store \<Rightarrow> 'a store" where
  "set_row v k (Store1 rows) = Store1 (rows[k := v])"
| "set_row v k (Store2 rows) = Store2 (rows[k := map (\<lambda>_. v) (rows ! k)])"

text \<open>
  \<^verbatim>\<open>store[subplot_index, :] = v\<close>. The tuple sits inside the index, so numpy reads
  it as a list of positions along the first axis: every row it names is assigned \<open>v\<close>,
  in a three-dimensional store across all its columns.
\<close>

definition store_set :: "'a store \<Rightarrow> int list \<Rightarrow> 'a \<times> 'a \<Rightarrow> error + 'a store" where
  "store_set st idx v =
     (case norm_all (store_rows st) idx of Inl e \<Rightarrow> Inl e
      | Inr ks \<Rightarrow> Inr (fold (set_row v) ks st))"

text \<open>\<^verbatim>\<open>store[subplot_index]\<close>: a scalar, or an array whose last axis has length two.\<close>

datatype 'a cell = Scalar 'a | Pairs "('a \<times> 'a) list"

fun pair_get :: "'a \<times> 'a \<Rightarrow> int \<Rightarrow> error + 'a" where
  "pair_get (a, b) i =
     (case norm_index 2 i of Inl e \<Rightarrow> Inl e | Inr k \<Rightarrow> Inr (if k = 0 then a else b))"

fun store_get :: "'a store \<Rightarrow> int list \<Rightarrow> error + 'a cell" where
  "store_get (Store1 rows) [] = Inr (Pairs rows)"
| "store_get (Store1 rows) [i] =
     (case norm_index (length rows) i of Inl e \<Rightarrow> Inl e | Inr k \<Rightarrow> Inr (Pairs [rows ! k]))"
| "store_get (Store1 rows) [i, j] =
     (case norm_index (length rows) i of Inl e \<Rightarrow> Inl e
      | Inr k \<Rightarrow> (case pair_get (rows ! k) j of Inl e \<Rightarrow> Inl e | Inr x \<Rightarrow> Inr (Scalar x)))"
| "store_get (Store1 rows) (i # j # l # rest) = Inl IndexError"
| "store_get (Store2 rows) [] = Inr (Pairs (concat rows))"
| "store_get (Store2 rows) [i] =
     (case norm_index (length rows) i of Inl e \<Rightarrow> Inl e | Inr k \<Rightarrow> Inr (Pairs (rows ! k)))"
| "store_get (Store2 rows) [i, j] =
     (case norm_index (length rows) i of Inl e \<Rightarrow> Inl e
      | Inr k \<Rightarrow> (case norm_index (length (rows ! k)) j of Inl e \<Rightarrow> Inl e
                 | Inr l \<Rightarrow> Inr (Pairs [rows ! k ! l])))"
| "store_get (Store2 rows) [i, j, m] =
     (case norm_index (length rows) i of Inl e \<Rightarrow> Inl e
      | Inr k \<Rightarrow> (case norm_index (length (rows ! k)) j of Inl e \<Rightarrow> Inl e
                 | Inr l \<Rightarrow> (case pair_get (rows ! k ! l) m of Inl e \<Rightarrow> Inl e
                            | Inr x \<Rightarrow> Inr (Scalar x))))"
| "store_get (Store2 rows) (i # j # m # n # rest) = Inl IndexError"

text \<open>
  \<^verbatim>\<open>cell == np.zeros(2)\<close> compares element by element, a scalar against both
  zeros.
\<close>

fun eq_zeros2 :: "real cell \<Rightarrow> bool list" where
  "eq_zeros2 (Scalar x) = [x = 0, x = 0]"
| "eq_zeros2 (Pairs ps) = concat (map (\<lambda>(a, b). [a = 0, b = 0]) ps)"

text \<open>
  The truth value Python asks of an array of booleans: that of its only element; of an
  empty array, false; of a longer array there is none, and numpy raises.
\<close>

fun truth_value :: "bool list \<Rightarrow> error + bool" where
  "truth_value [] = Inr False"
| "truth_value [b] = Inr b"
| "truth_value (b # c # rest) =
     Inl (ValueError ''The truth value of an array with more than one element is ambiguous'')"

text \<open>A stored cell handed on as a range: the backend takes exactly two limits.\<close>

fun cell_range :: "'a cell \<Rightarrow> error + 'a \<times> 'a" where
  "cell_range (Pairs [p]) = Inr p"
| "cell_range c = Inl TypeError"

text \<open>
  \<^verbatim>\<open>xrng[subplot_index, col]\<close>, the tuple again a list of rows; in a
  three-dimensional store \<open>col\<close> picks a column, whose pair is returned.
\<close>

fun store_col :: "date store \<Rightarrow> nat list \<Rightarrow> int \<Rightarrow> error + date list" where
  "store_col st [] col = Inr []"
| "store_col (Store1 rows) (k # ks) col =
     (case pair_get (rows ! k) col of Inl e \<Rightarrow> Inl e
      | Inr x \<Rightarrow> (case store_col (Store1 rows) ks col of Inl e \<Rightarrow> Inl e
                 | Inr xs \<Rightarrow> Inr (x # xs)))"
| "store_col (Store2 rows) (k # ks) col =
     (case norm_index (length (rows ! k)) col of Inl e \<Rightarrow> Inl e
      | Inr l \<Rightarrow> (case store_col (Store2 rows) ks col of Inl e \<Rightarrow> Inl e
                 | Inr xs \<Rightarrow> Inr (fst (rows ! k ! l) # snd (rows ! k ! l) # xs)))"

text \<open>
  The day count of the tick format, for a one-element index
  \<^verbatim>\<open>xrng[subplot_index, 1] - xrng[subplot_index, 0]\<close> and otherwise
  \<^verbatim>\<open>xrng[subplot_index[0], subplot_index[1], 1] - xrng[subplot_index[0], subplot_index[1], 0]\<close>,
  in whole days since the store holds days.
\<close>

definition xrng_days :: "date store \<Rightarrow> int list \<Rightarrow> error + int list" where
  "xrng_days st idx =
     (if length idx = 1 then
        (case norm_all (store_rows st) idx of Inl e \<Rightarrow> Inl e
         | Inr ks \<Rightarrow> (case store_col st ks 1 of Inl e \<Rightarrow> Inl e
                     | Inr hi \<Rightarrow> (case store_col st ks 0 of Inl e \<Rightarrow> Inl e
                                 | Inr lo \<Rightarrow> Inr (map (\<lambda>(a, b). a - b) (zip hi lo)))))
      else
        (case idx of
           i # j # rest \<Rightarrow>
             (case store_get st [i, j, 1] of Inl e \<Rightarrow> Inl e
              | Inr (Pairs ps) \<Rightarrow> Inl IndexError
              | Inr (Scalar hi) \<Rightarrow>
                  (case store_get st [i, j, 0] of Inl e \<Rightarrow> Inl e
                   | Inr (Pairs ps) \<Rightarrow> Inl IndexError
                   | Inr (Scalar lo) \<Rightarrow> Inr [hi - lo]))
         | _ \<Rightarrow> Inl IndexError))"

subsection \<open>The session\<close>

record session =
  arm :: dataset
  fields_attr :: "string \<Rightarrow> variable option"
  ds :: pyval
  file_dates :: "date list"
  fig :: fig_attr
  axes :: "axes_val option"
  plot_vars :: "string list"
  cbs :: "colorbar list"
  xrng :: "date store option"
  yrng :: "real store option"
  time_rng :: "(xval \<times> xval) option"

text \<open>
  \<open>xrng\<close>, \<open>yrng\<close> and \<open>time_rng\<close> are attributes the constructor does not create:
  \<open>None\<close> is the attribute missing, which \<^verbatim>\<open>hasattr\<close> tests.
\<close>

type_synonym 'a action = "session \<Rightarrow> (error + 'a) \<times> session"

definition returnE :: "'a \<Rightarrow> 'a action" where
  "returnE a = (\<lambda>s. (Inr a, s))"

definition raise :: "error \<Rightarrow> 'a action" where
  "raise e = (\<lambda>s. (Inl e, s))"

definition bindE :: "'a action \<Rightarrow> ('a \<Rightarrow> 'b action) \<Rightarrow> 'b action" where
  "bindE m f = (\<lambda>s. case m s of (Inl e, s') \<Rightarrow> (Inl e, s') | (Inr a, s') \<Rightarrow> f a s')"

definition thenE :: "'a action \<Rightarrow> 'b action \<Rightarrow> 'b action" where
  "thenE m k = bindE m (\<lambda>_. k)"

definition liftE :: "error + 'a \<Rightarrow> 'a action" where
  "liftE r = (case r of Inl e \<Rightarrow> raise e | Inr a \<Rightarrow> returnE a)"

definition gets :: "(session \<Rightarrow> 'a) \<Rightarrow> 'a action" where
  "gets f = (\<lambda>s. (Inr (f s), s))"

definition modify :: "(session \<Rightarrow> session) \<Rightarrow> unit action" where
  "modify f = (\<lambda>s. (Inr (), f s))"

definition whenE :: "bool \<Rightarrow> unit action \<Rightarrow> unit action" where
  "whenE b m = (if b then m else returnE ())"

text \<open>
  A method call on \<^verbatim>\<open>self.axes[subplot_index]\<close> that changes the handle by \<open>f\<close>:
  the subscript may fail, and a sub-array has none of an axis handle's attributes.
\<close>

definition get_axis :: "int list \<Rightarrow> axis item action" where
  "get_axis idx =
     bindE (gets axes) (\<lambda>a. case a of None \<Rightarrow> raise TypeError
                            | Some arr \<Rightarrow> liftE (axes_get arr idx))"

definition on_axis :: "int list \<Rightarrow> (axis \<Rightarrow> axis) \<Rightarrow> unit action" where
  "on_axis idx f =
     bindE (get_axis idx) (\<lambda>it. case it of Sub \<Rightarrow> raise AttributeError
        | Elem ax \<Rightarrow> modify (\<lambda>s. s\<lparr>axes := map_option (\<lambda>arr. axes_upd arr idx f) (axes s)\<rparr>))"

subsection \<open>Reading the dataset\<close>

text \<open>
  \<^verbatim>\<open>self._arm[name]\<close>: the variable of that name or, for a dimension that has no
  coordinate variable, the index 0, 1, ... along it, which carries no attributes.
\<close>

definition getitem :: "dataset \<Rightarrow> string \<Rightarrow> error + variable" where
  "getitem d name =
     (case variables d name of
        Some v \<Rightarrow> Inr v
      | None \<Rightarrow>
          (case dim_sizes d name of
             None \<Rightarrow> Inl KeyError
           | Some n \<Rightarrow> Inr \<lparr>dims = [name], units = None, vals = Nums (map real [0 ..< n])\<rparr>))"

text \<open>\<^verbatim>\<open>self._arm.name\<close>: the same lookup by attribute.\<close>

definition getattr :: "dataset \<Rightarrow> string \<Rightarrow> error + variable" where
  "getattr d name = (case getitem d name of Inl e \<Rightarrow> Inl AttributeError | Inr v \<Rightarrow> Inr v)"

text \<open>\<^verbatim>\<open>v.attrs['units']\<close>.\<close>

definition attrs_units :: "variable \<Rightarrow> error + string" where
  "attrs_units v = (case units v of None \<Rightarrow> Inl KeyError | Some u \<Rightarrow> Inr u)"

text \<open>
  Modelled from the spec: \<^verbatim>\<open>dt_utils.numpy_to_arm_date\<close> of act/utils, which is
  not among the sources; it "converts a time sample to a calendar-date label", here the
  day the sample falls on.
\<close>

definition numpy_to_arm_date :: "time \<Rightarrow> date" where
  "numpy_to_arm_date t = day_of t"

text \<open>
  \<^verbatim>\<open>numpy_to_arm_date(self._arm.time.values[0])\<close> and the same of
  \<^verbatim>\<open>values[-1]\<close>: the subscript fails on an array that is empty or has no
  dimension; the date helper is given a time sample, and the model reports a sample of
  another kind as a type error.
\<close>

fun first_sample :: "ndarray \<Rightarrow> error + time" where
  "first_sample (Times []) = Inl IndexError"
| "first_sample (Times (t # ts)) = Inr t"
| "first_sample (Nums []) = Inl IndexError"
| "first_sample (Nums (x # xs)) = Inl TypeError"
| "first_sample (Grid []) = Inl IndexError"
| "first_sample (Grid (r # rs)) = Inl TypeError"
| "first_sample (Scal x) = Inl IndexError"

fun last_sample :: "ndarray \<Rightarrow> error + time" where
  "last_sample (Times []) = Inl IndexError"
| "last_sample (Times (t # ts)) = Inr (last (t # ts))"
| "last_sample (Nums []) = Inl IndexError"
| "last_sample (Nums (x # xs)) = Inl TypeError"
| "last_sample (Grid []) = Inl IndexError"
| "last_sample (Grid (r # rs)) = Inl TypeError"
| "last_sample (Scal x) = Inl IndexError"

definition first_date :: "dataset \<Rightarrow> error + date" where
  "first_date d =
     (case getattr d ''time'' of Inl e \<Rightarrow> Inl e
      | Inr v \<Rightarrow> (case first_sample (vals v) of Inl e \<Rightarrow> Inl e
                 | Inr t \<Rightarrow> Inr (numpy_to_arm_date t)))"

definition last_date :: "dataset \<Rightarrow> error + date" where
  "last_date d =
     (case getattr d ''time'' of Inl e \<Rightarrow> Inl e
      | Inr v \<Rightarrow> (case last_sample (vals v) of Inl e \<Rightarrow> Inl e
                 | Inr t \<Rightarrow> Inr (numpy_to_arm_date t)))"

text \<open>
  \<^verbatim>\<open>data.size\<close>, \<^verbatim>\<open>data[0]\<close> and \<^verbatim>\<open>float(data)\<close> of a latitude or
  longitude. A number of no dimension has size one and cannot be subscripted;
  \<^verbatim>\<open>float\<close> takes an array of exactly one element. The ephemeris is given
  numbers: the model reports a row of a two-dimensional array, or a time sample, in
  their place as a type error.
\<close>

fun np_size :: "ndarray \<Rightarrow> nat" where
  "np_size (Times ts) = length ts"
| "np_size (Nums xs) = length xs"
| "np_size (Grid g) = length (concat g)"
| "np_size (Scal x) = 1"

fun np_first :: "ndarray \<Rightarrow> error + real" where
  "np_first (Nums []) = Inl IndexError"
| "np_first (Nums (x # xs)) = Inr x"
| "np_first (Scal x) = Inl IndexError"
| "np_first (Grid []) = Inl IndexError"
| "np_first (Grid (r # rs)) = Inl TypeError"
| "np_first (Times []) = Inl IndexError"
| "np_first (Times (t # ts)) = Inl TypeError"

fun py_float :: "ndarray \<Rightarrow> error + real" where
  "py_float (Scal x) = Inr x"
| "py_float (Nums [x]) = Inr x"
| "py_float (Grid [[x]]) = Inr x"
| "py_float a = Inl TypeError"

text \<open>
  Latitude and longitude as \<^verbatim>\<open>day_night_background\<close> reads them (lines 161 to
  166): the first element of each when the latitude has more than one element, else
  each as a number.
\<close>

definition site_location :: "dataset \<Rightarrow> error + real \<times> real" where
  "site_location d =
     (case getattr d ''lat'' of Inl e \<Rightarrow> Inl e
      | Inr la \<Rightarrow>
          if np_size (vals la) > 1 then
            (case np_first (vals la) of Inl e \<Rightarrow> Inl e
             | Inr x \<Rightarrow> (case getattr d ''lon'' of Inl e \<Rightarrow> Inl e
                        | Inr lo \<Rightarrow> (case np_first (vals lo) of Inl e \<Rightarrow> Inl e
                                    | Inr y \<Rightarrow> Inr (x, y))))
          else
            (case py_float (vals la) of Inl e \<Rightarrow> Inl e
             | Inr x \<Rightarrow> (case getattr d ''lon'' of Inl e \<Rightarrow> Inl e
                        | Inr lo \<Rightarrow> (case py_float (vals lo) of Inl e \<Rightarrow> Inl e
                                    | Inr y \<Rightarrow> Inr (x, y)))))"

text \<open>
  \<^verbatim>\<open>xdata.min().values\<close> and \<^verbatim>\<open>xdata.max().values\<close> of the coordinate of the
  first dimension, whatever it holds; the reduction of an empty array raises.
\<close>

fun x_extent :: "ndarray \<Rightarrow> error + xval \<times> xval" where
  "x_extent (Times []) = Inl (ValueError ''zero-size array to reduction operation'')"
| "x_extent (Times (t # ts)) = Inr (XTime (fold min ts t), XTime (fold max ts t))"
| "x_extent (Nums []) = Inl (ValueError ''zero-size array to reduction operation'')"
| "x_extent (Nums (x # xs)) = Inr (XNum (fold min xs x), XNum (fold max xs x))"
| "x_extent (Grid g) =
     (case concat g of [] \<Rightarrow> Inl (ValueError ''zero-size array to reduction operation'')
      | x # xs \<Rightarrow> Inr (XNum (fold min xs x), XNum (fold max xs x)))"
| "x_extent (Scal x) = Inr (XNum x, XNum x)"

text \<open>
  \<^verbatim>\<open>ydata.min().values\<close> and \<^verbatim>\<open>ydata.max().values\<close> of the coordinate of the
  second dimension, for the numeric y-range store; time samples are reported as a type
  error.
\<close>

fun num_extent :: "ndarray \<Rightarrow> error + real \<times> real" where
  "num_extent (Nums []) = Inl (ValueError ''zero-size array to reduction operation'')"
| "num_extent (Nums (x # xs)) = Inr (fold min xs x, fold max xs x)"
| "num_extent (Grid g) =
     (case concat g of [] \<Rightarrow> Inl (ValueError ''zero-size array to reduction operation'')
      | x # xs \<Rightarrow> Inr (fold min xs x, fold max xs x))"
| "num_extent (Scal x) = Inr (x, x)"
| "num_extent (Times ts) = Inl TypeError"

text \<open>\<^verbatim>\<open>data.transpose()\<close>.\<close>

fun np_transpose :: "ndarray \<Rightarrow> ndarray" where
  "np_transpose (Grid g) = Grid (transpose g)"
| "np_transpose a = a"

subsection \<open>Collaborators outside the class\<close>

record sun_times =
  sunrise :: time
  sunset :: time
  noon :: time

text \<open>
  The ephemeris calculator \<^verbatim>\<open>astral.Astral().sun_utc\<close>, the gap filler
  \<^verbatim>\<open>data_utils.add_in_nan\<close> and the tick-format chooser
  \<^verbatim>\<open>common.get_date_format\<close> are parameters of the model.
\<close>

record helpers =
  sun_utc :: "date \<Rightarrow> real \<Rightarrow> real \<Rightarrow> sun_times"
  add_in_nan :: "ndarray \<Rightarrow> ndarray \<Rightarrow> ndarray \<times> ndarray"
  get_date_format :: "int list \<Rightarrow> string"

text \<open>
  Modelled from the spec: \<^verbatim>\<open>dt_utils.dates_between\<close> of act/utils, which is not
  among the sources; it "enumerates the inclusive date range", every calendar day from
  the first date to the last.
\<close>

definition dates_between :: "date \<Rightarrow> date \<Rightarrow> date list" where
  "dates_between sdate edate = map (\<lambda>k. sdate + int k) [0 ..< nat (edate - sdate + 1)]"

subsection \<open>The methods\<close>

text \<open>
  \<^verbatim>\<open>add_subplots\<close> (lines 97 to 129). The keyword options go to the backend as
  they are; the model takes the backend's defaults for them.
\<close>

definition add_subplots :: "int list \<Rightarrow> unit action" where
  "add_subplots subplot_shape =
     bindE (gets fig) (\<lambda>f.
     thenE (case f of FigDeleted \<Rightarrow> raise AttributeError
            | FigNone \<Rightarrow> returnE ()
            | Fig g \<Rightarrow> modify (\<lambda>s. s\<lparr>fig := FigDeleted\<rparr>))
     (bindE
       (case subplot_shape of
          [nrows, ncols] \<Rightarrow> liftE (plt_subplots nrows ncols)
        | [nrows] \<Rightarrow>
            bindE (liftE (plt_subplots nrows 1)) (\<lambda>ax.
              returnE (if nrows = 1 then np_array1 ax else ax))
        | _ \<Rightarrow> raise (ValueError
                 ''subplot_shape must be a 1 or 2 dimensional tuplelist, or array!''))
       (\<lambda>ax. modify (\<lambda>s. s\<lparr>fig := Fig new_figure, axes := Some ax\<rparr>))))"

text \<open>\<^verbatim>\<open>__init__\<close> (lines 83 to 95), from the dataset and the optional grid shape.\<close>

definition init_fields :: "dataset \<Rightarrow> session" where
  "init_fields arm_obj =
     (let d = py_str (act_datastream arm_obj);
          d' = (if d = PyNone then py_str (fallback_datastream arm_obj) else d)
      in \<lparr>arm = arm_obj, fields_attr = variables arm_obj, ds = d',
          file_dates = act_file_dates arm_obj, fig = FigNone, axes = None,
          plot_vars = [], cbs = [], xrng = None, yrng = None, time_rng = None\<rparr>)"

definition init :: "dataset \<Rightarrow> int list option \<Rightarrow> (error + unit) \<times> session" where
  "init arm_obj subplot_shape =
     (case subplot_shape of None \<Rightarrow> returnE () (init_fields arm_obj)
      | Some shape \<Rightarrow> add_subplots shape (init_fields arm_obj))"

text \<open>The date span \<^verbatim>\<open>day_night_background\<close> shades (lines 142 to 148).\<close>

definition date_span :: "dataset \<Rightarrow> error + date \<times> date" where
  "date_span d =
     (case act_file_dates d of
        [] \<Rightarrow> (case first_date d of Inl e \<Rightarrow> Inl e
               | Inr sdate \<Rightarrow> (case last_date d of Inl e \<Rightarrow> Inl e
                              | Inr edate \<Rightarrow> Inr (sdate, edate)))
      | f # fs \<Rightarrow> Inr (f, last (f # fs)))"

text \<open>The loop over the days (lines 168 to 174), on the axis handle.\<close>

fun shade_days :: "helpers \<Rightarrow> real \<Rightarrow> real \<Rightarrow> date list \<Rightarrow> axis \<Rightarrow> axis" where
  "shade_days h la lo [] ax = ax"
| "shade_days h la lo (f # fs) ax =
     shade_days h la lo fs
       (let sun = sun_utc h f la lo
        in ax\<lparr>artists := artists ax @
              [Span (sunrise sun) (sunset sun) ''#FFFFCC'', VLine (noon sun) ''--'' ''y'']\<rparr>)"

text \<open>\<^verbatim>\<open>day_night_background\<close> (lines 131 to 174).\<close>

definition day_night_background :: "helpers \<Rightarrow> int list \<Rightarrow> unit action" where
  "day_night_background h subplot_index =
     bindE (gets arm) (\<lambda>d.
     bindE (liftE (date_span d)) (\<lambda>(sdate, edate).
     bindE (gets axes) (\<lambda>a.
     thenE (whenE (a = None)
              (raise (RuntimeError ''day_night_background requires the plot to be displayed.'')))
     (thenE (on_axis subplot_index (\<lambda>ax. ax\<lparr>facecolor := Some ''0.85''\<rparr>))
     (bindE (liftE (site_location d)) (\<lambda>(la, lo).
      on_axis subplot_index (shade_days h la lo (dates_between sdate edate))))))))"

text \<open>The lazy allocation of a range store, sized to the grid (lines 191 to 194).\<close>

definition zeros_like_axes :: "axes_val \<Rightarrow> 'a \<Rightarrow> error + 'a store" where
  "zeros_like_axes a z =
     (case a of
        Bare ax \<Rightarrow> Inl AttributeError
      | Arr2 rows \<Rightarrow>
          Inr (Store2 (replicate (length rows)
                 (replicate (case rows of [] \<Rightarrow> 0 | r # _ \<Rightarrow> length r) (z, z))))
      | Arr1 xs \<Rightarrow> Inr (Store1 (replicate (length xs) (z, z))))"

text \<open>\<^verbatim>\<open>set_xrng\<close> (lines 176 to 197).\<close>

definition set_xrng :: "xval \<times> xval \<Rightarrow> int list \<Rightarrow> unit action" where
  "set_xrng rng subplot_index =
     bindE (gets axes) (\<lambda>a.
       case a of
         None \<Rightarrow> raise (RuntimeError ''set_xrng requires the plot to be displayed.'')
       | Some arr \<Rightarrow>
           thenE (bindE (gets xrng) (\<lambda>x. case x of Some st \<Rightarrow> returnE ()
                    | None \<Rightarrow> bindE (liftE (zeros_like_axes arr 0)) (\<lambda>st.
                               modify (\<lambda>s. s\<lparr>xrng := Some st\<rparr>))))
          (thenE (on_axis subplot_index (\<lambda>ax. ax\<lparr>xlim := Some rng\<rparr>))
          (bindE (gets xrng) (\<lambda>x. case x of None \<Rightarrow> raise AttributeError
             | Some st \<Rightarrow>
                 bindE (liftE (store_set st subplot_index (to_day (fst rng), to_day (snd rng))))
                   (\<lambda>st'. modify (\<lambda>s. s\<lparr>xrng := Some st'\<rparr>))))))"

text \<open>\<^verbatim>\<open>set_yrng\<close> (lines 199 to 220).\<close>

definition set_yrng :: "real \<times> real \<Rightarrow> int list \<Rightarrow> unit action" where
  "set_yrng rng subplot_index =
     bindE (gets axes) (\<lambda>a.
       case a of
         None \<Rightarrow> raise (RuntimeError ''set_yrng requires the plot to be displayed.'')
       | Some arr \<Rightarrow>
           thenE (bindE (gets yrng) (\<lambda>y. case y of Some st \<Rightarrow> returnE ()
                    | None \<Rightarrow> bindE (liftE (zeros_like_axes arr 0)) (\<lambda>st.
                               modify (\<lambda>s. s\<lparr>yrng := Some st\<rparr>))))
          (thenE (on_axis subplot_index (\<lambda>ax. ax\<lparr>ylim := Some rng\<rparr>))
          (bindE (gets yrng) (\<lambda>y. case y of None \<Rightarrow> raise AttributeError
             | Some st \<Rightarrow>
                 bindE (liftE (store_set st subplot_index rng))
                   (\<lambda>st'. modify (\<lambda>s. s\<lparr>yrng := Some st'\<rparr>))))))"

text \<open>\<^verbatim>\<open>add_colorbar\<close> (lines 222 to 255).\<close>

definition add_colorbar :: "artist \<Rightarrow> string option \<Rightarrow> int list \<Rightarrow> colorbar action" where
  "add_colorbar mappable ttl subplot_index =
     bindE (gets axes) (\<lambda>a.
     thenE (whenE (a = None)
              (raise (RuntimeError ''add_colorbar requires the plot to be displayed.'')))
     (bindE (gets fig) (\<lambda>f.
      thenE (whenE (f = FigDeleted) (raise AttributeError))
     (bindE (get_axis subplot_index) (\<lambda>it.
      thenE (whenE (it = Sub) (raise AttributeError))
     (case f of
        Fig g \<Rightarrow>
          (let cbar = \<lparr>cb_mappable = mappable, cb_title = ttl, cb_anchor = subplot_index\<rparr>
           in thenE (modify (\<lambda>s. s\<lparr>fig := Fig (g\<lparr>colorbar_axes := colorbar_axes g @ [subplot_index]\<rparr>),
                                   cbs := cbs s @ [cbar]\<rparr>))
                (returnE cbar))
      | _ \<Rightarrow> raise AttributeError))))))"

subsection \<open>The method plot\<close>

record plot_opts =
  line_color :: string
  cmap :: "string option"
  cbmin :: "real option"
  cbmax :: "real option"
  set_title :: "string option"
  add_nan :: bool

definition default_opts :: plot_opts where
  "default_opts = \<lparr>line_color = ''k'', cmap = None, cbmin = None, cbmax = None,
     set_title = None, add_nan = False\<rparr>"

text \<open>The coordinate of the first dimension (line 291) and of the second, if any (line 294).\<close>

definition first_coord :: "dataset \<Rightarrow> variable \<Rightarrow> error + variable" where
  "first_coord d data = (case dims data of [] \<Rightarrow> Inl IndexError | d0 # _ \<Rightarrow> getitem d d0)"

definition second_coord :: "dataset \<Rightarrow> variable \<Rightarrow> error + variable option" where
  "second_coord d data =
     (case dims data of
        d0 # d1 # _ \<Rightarrow> (case getitem d d1 of Inl e \<Rightarrow> Inl e | Inr v \<Rightarrow> Inr (Some v))
      | _ \<Rightarrow> Inr None)"

definition paren :: "string \<Rightarrow> string" where
  "paren u = ''('' @ u @ '')''"

text \<open>
  Lines 301 to 306: a figure and a single axis are made when there is none. Adding the
  axis to the figure it was created in changes nothing the model keeps.
\<close>

definition ensure_figure :: "unit action" where
  "ensure_figure =
     thenE (bindE (gets fig) (\<lambda>f. case f of
              FigDeleted \<Rightarrow> raise AttributeError
            | FigNone \<Rightarrow> modify (\<lambda>s. s\<lparr>fig := Fig new_figure\<rparr>)
            | Fig g \<Rightarrow> returnE ()))
       (bindE (gets axes) (\<lambda>a.
          whenE (a = None) (modify (\<lambda>s. s\<lparr>axes := Some (Arr1 [new_axis])\<rparr>))))"

definition add_artist :: "artist \<Rightarrow> axis \<Rightarrow> axis" where
  "add_artist x ax = ax\<lparr>artists := artists ax @ [x]\<rparr>"

text \<open>
  Lines 310 to 319: markers over the day and night background for a field of one
  dimension, a mesh otherwise. Returns the x data as drawn and the mesh, if any.
\<close>

definition draw_field ::
  "helpers \<Rightarrow> variable \<Rightarrow> variable \<Rightarrow> variable option \<Rightarrow> int list \<Rightarrow> plot_opts
     \<Rightarrow> (ndarray \<times> artist option) action" where
  "draw_field h data xdata ydata subplot_index opts =
     (case ydata of
        None \<Rightarrow>
          thenE (day_night_background h subplot_index)
         (thenE (on_axis subplot_index
                   (add_artist (Markers (vals xdata) (vals data) (line_color opts))))
            (returnE (vals xdata, None)))
      | Some yv \<Rightarrow>
          (let (x, dat) = (if add_nan opts then add_in_nan h (vals xdata) (vals data)
                           else (vals xdata, vals data));
               mesh = Mesh x (vals yv) (np_transpose dat) (cmap opts) (cbmin opts) (cbmax opts)
           in thenE (on_axis subplot_index (add_artist mesh)) (returnE (x, Some mesh))))"

text \<open>Lines 322 to 326.\<close>

definition put_title :: "string \<Rightarrow> int list \<Rightarrow> plot_opts \<Rightarrow> unit action" where
  "put_title field subplot_index opts =
     bindE (case set_title opts of
              Some t \<Rightarrow> returnE (Title t)
            | None \<Rightarrow>
                bindE (gets ds) (\<lambda>label.
                bindE (gets arm) (\<lambda>d.
                bindE (liftE (first_date d)) (\<lambda>date.
                  case label of PyNone \<Rightarrow> raise TypeError
                  | PyStr name \<Rightarrow> returnE (AutoTitle name field date)))))
       (\<lambda>t. on_axis subplot_index (\<lambda>ax. ax\<lparr>ax_title := Some t\<rparr>))"

text \<open>Lines 331 to 335: the session's time range, set once, applied on every call.\<close>

definition set_x_limit :: "ndarray \<Rightarrow> int list \<Rightarrow> unit action" where
  "set_x_limit x subplot_index =
     thenE (bindE (gets time_rng) (\<lambda>r. case r of
              Some tr \<Rightarrow> returnE ()
            | None \<Rightarrow> bindE (liftE (x_extent x)) (\<lambda>e.
                        modify (\<lambda>s. s\<lparr>time_rng := Some e\<rparr>))))
       (bindE (gets time_rng) (\<lambda>r. case r of
          None \<Rightarrow> raise AttributeError
        | Some tr \<Rightarrow> set_xrng tr subplot_index))"

text \<open>Lines 337 to 344.\<close>

definition set_y_limit :: "variable option \<Rightarrow> int list \<Rightarrow> unit action" where
  "set_y_limit ydata subplot_index =
     bindE (gets yrng) (\<lambda>y. case y of
        None \<Rightarrow> returnE ()
      | Some st \<Rightarrow>
          bindE (liftE (store_get st subplot_index)) (\<lambda>c.
          bindE (liftE (truth_value (eq_zeros2 c))) (\<lambda>b.
            if \<not> b then
              bindE (liftE (cell_range c)) (\<lambda>r. set_yrng r subplot_index)
            else
              bindE (liftE (case ydata of None \<Rightarrow> Inl AttributeError
                            | Some yv \<Rightarrow> num_extent (vals yv)))
                (\<lambda>r. set_yrng r subplot_index))))"

text \<open>Lines 346 to 354.\<close>

definition set_x_format :: "helpers \<Rightarrow> int list \<Rightarrow> unit action" where
  "set_x_format h subplot_index =
     bindE (gets xrng) (\<lambda>x. case x of
        None \<Rightarrow> raise AttributeError
      | Some st \<Rightarrow>
          bindE (liftE (xrng_days st subplot_index)) (\<lambda>days.
            on_axis subplot_index (\<lambda>ax. ax\<lparr>major_formatter := Some (get_date_format h days)\<rparr>)))"

text \<open>\<^verbatim>\<open>plot\<close> (lines 257 to 357).\<close>

definition plot :: "helpers \<Rightarrow> string \<Rightarrow> int list \<Rightarrow> plot_opts \<Rightarrow> unit action" where
  "plot h field subplot_index opts =
     bindE (gets arm) (\<lambda>d.
     bindE (liftE (getitem d field)) (\<lambda>data.
     bindE (liftE (first_coord d data)) (\<lambda>xdata.
     bindE (liftE (attrs_units data)) (\<lambda>u.
     bindE (liftE (second_coord d data)) (\<lambda>ydata.
     bindE (liftE (case ydata of None \<Rightarrow> Inr (paren u)
                   | Some yv \<Rightarrow> (case attrs_units yv of Inl e \<Rightarrow> Inl e
                                 | Inr yu \<Rightarrow> Inr (paren yu)))) (\<lambda>ytitle.
     thenE ensure_figure
    (thenE (get_axis subplot_index)
    (bindE (draw_field h data xdata ydata subplot_index opts) (\<lambda>(x, mesh).
     thenE (put_title field subplot_index opts)
    (thenE (on_axis subplot_index (\<lambda>ax. ax\<lparr>ylabel := Some ytitle\<rparr>))
    (thenE (set_x_limit x subplot_index)
    (thenE (set_y_limit ydata subplot_index)
    (thenE (set_x_format h subplot_index)
    (case mesh of
       None \<Rightarrow> returnE ()
     | Some m \<Rightarrow> thenE (add_colorbar m (Some (paren u)) subplot_index) (returnE ())))))))))))))))"

subsection \<open>A sample dataset\<close>

text \<open>
  Three time samples over two days, a field of one dimension, a field over time and
  height, and the site's coordinates; used where a property is run on concrete input.
\<close>

definition sample_dataset :: dataset where
  "sample_dataset = \<lparr>variables = map_of
      [(''time'', \<lparr>dims = [''time''], units = None, vals = Times [3600000000000, 7200000000000, 90000000000000]\<rparr>),
       (''temp'', \<lparr>dims = [''time''], units = Some ''C'', vals = Nums [1, 2, 3]\<rparr>),
       (''height'', \<lparr>dims = [''height''], units = Some ''m'', vals = Nums [0, 100]\<rparr>),
       (''refl'', \<lparr>dims = [''time'', ''height''], units = Some ''dBZ'', vals = Grid [[1,2],[3,4],[5,6]]\<rparr>),
       (''lat'', \<lparr>dims = [], units = None, vals = Scal 36\<rparr>),
       (''lon'', \<lparr>dims = [], units = None, vals = Scal (-97)\<rparr>)],
     dim_sizes = map_of [(''time'', 3), (''height'', 2)],
     act_datastream = PyStr ''sgpmetE13.b1'', fallback_datastream = PyStr ''alt'',
     act_file_dates = [0, 1]\<rparr>"

definition sample_helpers :: helpers where
  "sample_helpers = \<lparr>sun_utc = (\<lambda>d la lo. \<lparr>sunrise = d * ns_per_day + 6, sunset = d * ns_per_day + 18, noon = d * ns_per_day + 12\<rparr>),
     add_in_nan = (\<lambda>x d. (x, d)),
     get_date_format = (\<lambda>days. if days = [0] then ''%H:%M''
                                else if days = [1] then ''%m-%d %H'' else ''%Y-%m-%d'')\<rparr>"


text \<open>A dataset with a time coordinate of no samples and no covered dates recorded.\<close>

definition empty_dataset :: dataset where
  "empty_dataset = \<lparr>variables = map_of
      [(''time'', \<lparr>dims = [''time''], units = None, vals = Times []\<rparr>)],
     dim_sizes = map_of [(''time'', 0)],
     act_datastream = PyNone, fallback_datastream = PyStr ''sgpmetE13.b1'',
     act_file_dates = []\<rparr>"

subsection \<open>Notions used to state the properties\<close>

text \<open>A session with a grid of two subplots over the sample dataset.\<close>

definition sample_session :: session where
  "sample_session = snd (init sample_dataset (Some [2]))"

text \<open>
  The axis handle a subplot index addresses, if any; the artists the shading loop draws
  for a list of days; and the two kinds of artist it draws.
\<close>

definition axis_at :: "session \<Rightarrow> int list \<Rightarrow> axis option" where
  "axis_at s idx =
     (case axes s of None \<Rightarrow> None
      | Some arr \<Rightarrow> (case axes_get arr idx of Inr (Elem ax) \<Rightarrow> Some ax | _ \<Rightarrow> None))"

definition bands_and_lines :: "helpers \<Rightarrow> real \<Rightarrow> real \<Rightarrow> date list \<Rightarrow> artist list" where
  "bands_and_lines h la lo days =
     concat (map (\<lambda>f. [Span (sunrise (sun_utc h f la lo)) (sunset (sun_utc h f la lo)) ''#FFFFCC'',
                        VLine (noon (sun_utc h f la lo)) ''--'' ''y'']) days)"

fun is_span :: "artist \<Rightarrow> bool" where
  "is_span (Span a b c) = True"
| "is_span x = False"

fun is_vline :: "artist \<Rightarrow> bool" where
  "is_vline (VLine a b c) = True"
| "is_vline x = False"


text \<open>
  A range store has the shape of the grid: as many rows and, for a two-dimensional
  grid, as many columns in each row. \<open>xrng_fits\<close> says so of the session's x-range
  store, or of the store a first use would allocate, against the grid the session has
  or, while it has none, the single axis that \<open>plot\<close> would create.
\<close>

fun fits_grid :: "axes_val \<Rightarrow> 'a store \<Rightarrow> bool" where
  "fits_grid (Arr1 xs) (Store1 rows) = (length rows = length xs)"
| "fits_grid (Arr2 ars) (Store2 rows) = list_all2 (\<lambda>r a. length r = length a) rows ars"
| "fits_grid a st = False"

definition grid_of :: "session \<Rightarrow> axes_val" where
  "grid_of s = (case axes s of None \<Rightarrow> Arr1 [new_axis] | Some arr \<Rightarrow> arr)"

definition xrng_fits :: "session \<Rightarrow> bool" where
  "xrng_fits s =
     (case xrng s of
        None \<Rightarrow> (case zeros_like_axes (grid_of s) (0::int) of Inl e \<Rightarrow> False
                 | Inr st \<Rightarrow> fits_grid (grid_of s) st)
      | Some st \<Rightarrow> fits_grid (grid_of s) st)"

text \<open>Two arrays of handles of the same shape.\<close>

fun same_shape :: "axes_val \<Rightarrow> axes_val \<Rightarrow> bool" where
  "same_shape (Bare a) (Bare b) = True"
| "same_shape (Arr1 xs) (Arr1 ys) = (length xs = length ys)"
| "same_shape (Arr2 rows) (Arr2 rows') = (map length rows = map length rows')"
| "same_shape a b = False"

text \<open>
  A session whose x-range store was allocated for a grid of two rows and two columns
  and whose grid has since been rebuilt with two rows.
\<close>

definition regridded_session :: session where
  "regridded_session =
     snd (add_subplots [2]
       (snd (set_xrng (XTime 0, XTime 0) [0, 0] (snd (init sample_dataset (Some [2, 2]))))))"

text \<open>A session on which a call of \<open>add_subplots\<close> with a shape of length three has failed.\<close>

definition session_after_rejected_shape :: session where
  "session_after_rejected_shape = snd (add_subplots [1, 2, 3] sample_session)"

text \<open>
  An action preserves a property of the session when the session it leaves has the
  property whenever the session it started from had it, whether it returns or raises.
  A property is closed under changes of the grid when it survives a change of an axis
  handle that leaves its x-limits alone, the creation of the default axis and any
  change of the figure; it is closed under the display's bookkeeping when it also
  survives any change of the x-range store and of the colorbar list.
\<close>

definition preserves :: "(session \<Rightarrow> bool) \<Rightarrow> 'a action \<Rightarrow> bool" where
  "preserves P m = (\<forall>s. P s \<longrightarrow> P (snd (m s)))"

definition grid_closed :: "(session \<Rightarrow> bool) \<Rightarrow> bool" where
  "grid_closed P =
     ((\<forall>s arr i f. P s \<and> axes s = Some arr \<and> (\<forall>ax. xlim (f ax) = xlim ax)
          \<longrightarrow> P (s\<lparr>axes := Some (axes_upd arr i f)\<rparr>))
      \<and> (\<forall>s. P s \<and> axes s = None \<longrightarrow> P (s\<lparr>axes := Some (Arr1 [new_axis])\<rparr>))
      \<and> (\<forall>s f. P s \<longrightarrow> P (s\<lparr>fig := f\<rparr>)))"

definition display_closed :: "(session \<Rightarrow> bool) \<Rightarrow> bool" where
  "display_closed P =
     (grid_closed P
      \<and> (\<forall>s x. P s \<longrightarrow> P (s\<lparr>xrng := x\<rparr>))
      \<and> (\<forall>s y. P s \<longrightarrow> P (s\<lparr>cbs := y\<rparr>)))"


text \<open>
  The session's time range is \<open>r\<close> and the subplot at index \<open>i\<close> has \<open>r\<close> as its
  x-limits.
\<close>

definition keeps_range :: "xval \<times> xval \<Rightarrow> int list \<Rightarrow> session \<Rightarrow> bool" where
  "keeps_range r i s =
     (time_rng s = Some r \<and> (\<exists>ax. axis_at s i = Some ax \<and> xlim ax = Some r))"


text \<open>A run of plot calls on one session, stopped by the first call that raises.\<close>

fun plot_all :: "helpers \<Rightarrow> (string \<times> int list \<times> plot_opts) list \<Rightarrow> unit action" where
  "plot_all h [] s = (Inr (), s)"
| "plot_all h ((field, idx, opts) # rest) s =
     (case plot h field idx opts s of
        (Inl e, s') \<Rightarrow> (Inl e, s')
      | (Inr u, s') \<Rightarrow> plot_all h rest s')"

section \<open>Properties\<close>

subsection \<open>Running actions\<close>

lemma bindE_gets [simp]: "bindE (gets g) f s = f (g s) s"
  by (simp add: bindE_def gets_def)

lemma bindE_returnE [simp]: "bindE (returnE a) f s = f a s"
  by (simp add: bindE_def returnE_def)

lemma bindE_raise [simp]: "bindE (raise e) f s = (Inl e, s)"
  by (simp add: bindE_def raise_def)

lemma bindE_modify [simp]: "bindE (modify g) f s = f () (g s)"
  by (simp add: bindE_def modify_def)

lemma bindE_liftE_Inr [simp]: "bindE (liftE (Inr a)) f s = f a s"
  by (simp add: liftE_def)

lemma bindE_liftE_Inl [simp]: "bindE (liftE (Inl e)) f s = (Inl e, s)"
  by (simp add: liftE_def)

lemma liftE_simps [simp]: "liftE (Inr a) s = (Inr a, s)" "liftE (Inl e) s = (Inl e, s)"
  by (simp_all add: liftE_def returnE_def raise_def)

lemma action_simps [simp]:
  "returnE a s = (Inr a, s)" "raise e s = (Inl e, s)" "gets g s = (Inr (g s), s)"
  "modify h s = (Inr (), h s)"
  by (simp_all add: returnE_def raise_def gets_def modify_def)

lemma whenE_simps [simp]: "whenE True m = m" "whenE False m = returnE ()"
  by (simp_all add: whenE_def)

lemma thenE_apply: "thenE m k s = (case m s of (Inl e, s') \<Rightarrow> (Inl e, s') | (Inr a, s') \<Rightarrow> k s')"
  by (simp add: thenE_def bindE_def)

lemma bindE_apply: "bindE m f s = (case m s of (Inl e, s') \<Rightarrow> (Inl e, s') | (Inr a, s') \<Rightarrow> f a s')"
  by (simp add: bindE_def)

lemma set_xrng_not_displayed:
  "axes s = None \<Longrightarrow> set_xrng r i s = (Inl (RuntimeError ''set_xrng requires the plot to be displayed.''), s)"
  by (simp add: set_xrng_def)

lemma set_yrng_not_displayed:
  "axes s = None \<Longrightarrow> set_yrng r i s = (Inl (RuntimeError ''set_yrng requires the plot to be displayed.''), s)"
  by (simp add: set_yrng_def)

lemma add_colorbar_not_displayed:
  "axes s = None \<Longrightarrow> add_colorbar m t i s = (Inl (RuntimeError ''add_colorbar requires the plot to be displayed.''), s)"
  by (simp add: add_colorbar_def thenE_apply)

lemma day_night_not_displayed:
  "axes s = None \<Longrightarrow> date_span (arm s) = Inr sp \<Longrightarrow>
   day_night_background h i s = (Inl (RuntimeError ''day_night_background requires the plot to be displayed.''), s)"
  by (cases sp) (simp add: day_night_background_def thenE_apply)


lemma liftE_apply: "liftE r s = (case r of Inl e \<Rightarrow> (Inl e, s) | Inr a \<Rightarrow> (Inr a, s))"
  by (simp add: liftE_def split: sum.splits)

lemma norm_index_err: "norm_index n i = Inl e \<Longrightarrow> e = IndexError"
  by (simp add: norm_index_def split: if_splits)

lemma norm_all_err: "norm_all n idx = Inl e \<Longrightarrow> e = IndexError"
  by (induction idx arbitrary: e) (auto split: sum.splits dest: norm_index_err)

lemma axes_get_err: "axes_get a i = Inl e \<Longrightarrow> e = IndexError \<or> e = TypeError"
  by (induction a i rule: axes_get.induct) (auto split: sum.splits dest: norm_index_err)

lemma store_set_err: "store_set st idx v = Inl e \<Longrightarrow> e = IndexError"
  by (auto simp: store_set_def split: sum.splits dest: norm_all_err)

lemma zeros_like_axes_err: "zeros_like_axes a z = Inl e \<Longrightarrow> e = AttributeError"
  by (auto simp: zeros_like_axes_def split: axes_val.splits)


lemma on_axis_no_runtime: "on_axis i f s \<noteq> (Inl (RuntimeError m), s')"
  by (auto simp: on_axis_def get_axis_def bindE_apply liftE_apply
      split: option.splits sum.splits item.splits dest: axes_get_err)

lemma set_xrng_runtime:
  "fst (set_xrng r i s) = Inl (RuntimeError m) \<Longrightarrow> axes s = None"
  by (cases "axes s")
     (auto simp: set_xrng_def thenE_apply bindE_apply liftE_apply on_axis_no_runtime
       split: option.splits sum.splits prod.splits dest: zeros_like_axes_err store_set_err)

lemma set_yrng_runtime:
  "fst (set_yrng r i s) = Inl (RuntimeError m) \<Longrightarrow> axes s = None"
  by (cases "axes s")
     (auto simp: set_yrng_def thenE_apply bindE_apply liftE_apply on_axis_no_runtime
       split: option.splits sum.splits prod.splits dest: zeros_like_axes_err store_set_err)


lemma get_axis_err: "get_axis i s = (Inl e, s') \<Longrightarrow> e = IndexError \<or> e = TypeError"
  by (auto simp: get_axis_def liftE_apply split: option.splits sum.splits dest: axes_get_err)

lemma get_axis_state: "snd (get_axis i s) = s"
  by (auto simp: get_axis_def liftE_apply split: option.splits sum.splits)

lemma add_colorbar_runtime:
  "fst (add_colorbar mp t i s) = Inl (RuntimeError m) \<Longrightarrow> axes s = None"
proof (cases "axes s")
  case None
  then show ?thesis by simp
next
  case (Some arr)
  assume r: "fst (add_colorbar mp t i s) = Inl (RuntimeError m)"
  obtain res s1 where g: "get_axis i s = (res, s1)" by (cases "get_axis i s")
  have "fst (add_colorbar mp t i s) \<noteq> Inl (RuntimeError m)"
    using Some g get_axis_err [of i s _ s1]
    by (cases "fig s"; cases res)
       (auto simp: add_colorbar_def thenE_apply bindE_apply whenE_def Let_def
         split: item.splits)
  with r show ?thesis by simp
qed

lemma init_fields_axes [simp]: "axes (init_fields d) = None"
  by (simp add: init_fields_def Let_def)

subsection \<open>The precondition error leaves the session as it was\<close>

text \<open>
  Claim C10. Whenever \<open>set_xrng\<close>, \<open>set_yrng\<close> or \<open>add_colorbar\<close> raises its
  runtime error, the axes were unset and the session is left exactly as it was: no
  range store is allocated, no range recorded, no handle appended to the colorbar
  list.
\<close>

theorem setters_leave_session_unchanged:
  "(fst (set_xrng xr i s) = Inl (RuntimeError m1)
      \<longrightarrow> axes s = None \<and> snd (set_xrng xr i s) = s) \<and>
   (fst (set_yrng yr j s) = Inl (RuntimeError m2)
      \<longrightarrow> axes s = None \<and> snd (set_yrng yr j s) = s) \<and>
   (fst (add_colorbar mp t k s) = Inl (RuntimeError m3)
      \<longrightarrow> axes s = None \<and> snd (add_colorbar mp t k s) = s)"
proof (intro conjI impI)
  assume "fst (set_xrng xr i s) = Inl (RuntimeError m1)"
  then show "axes s = None" by (rule set_xrng_runtime)
  then show "snd (set_xrng xr i s) = s" by (simp add: set_xrng_not_displayed)
next
  assume "fst (set_yrng yr j s) = Inl (RuntimeError m2)"
  then show "axes s = None" by (rule set_yrng_runtime)
  then show "snd (set_yrng yr j s) = s" by (simp add: set_yrng_not_displayed)
next
  assume "fst (add_colorbar mp t k s) = Inl (RuntimeError m3)"
  then show "axes s = None" by (rule add_colorbar_runtime)
  then show "snd (add_colorbar mp t k s) = s" by (simp add: add_colorbar_not_displayed)
qed

theorem setters_leave_session_unchanged_witness:
  "fst (set_xrng (XTime 0, XTime 1) [0] (init_fields sample_dataset))
     = Inl (RuntimeError ''set_xrng requires the plot to be displayed.'')
   \<and> snd (set_xrng (XTime 0, XTime 1) [0] (init_fields sample_dataset)) = init_fields sample_dataset
   \<and> fst (set_yrng (0, 1) [0] (init_fields sample_dataset))
     = Inl (RuntimeError ''set_yrng requires the plot to be displayed.'')
   \<and> snd (set_yrng (0, 1) [0] (init_fields sample_dataset)) = init_fields sample_dataset
   \<and> fst (add_colorbar (VLine 0 ''--'' ''y'') None [0] (init_fields sample_dataset))
     = Inl (RuntimeError ''add_colorbar requires the plot to be displayed.'')
   \<and> snd (add_colorbar (VLine 0 ''--'' ''y'') None [0] (init_fields sample_dataset))
     = init_fields sample_dataset"
  using setters_leave_session_unchanged [of "(XTime 0, XTime 1)" "[0]" "init_fields sample_dataset"
      "''set_xrng requires the plot to be displayed.''" "(0, 1)" "[0]"
      "''set_yrng requires the plot to be displayed.''" "VLine 0 ''--'' ''y''" None "[0]"
      "''add_colorbar requires the plot to be displayed.''"]
  by (simp add: set_xrng_not_displayed set_yrng_not_displayed add_colorbar_not_displayed)

lemma init_fields_simps [simp]:
  "arm (init_fields d) = d" "fig (init_fields d) = FigNone"
  "plot_vars (init_fields d) = []" "cbs (init_fields d) = []"
  "xrng (init_fields d) = None" "yrng (init_fields d) = None" "time_rng (init_fields d) = None"
  "file_dates (init_fields d) = act_file_dates d"
  by (simp_all add: init_fields_def Let_def)

lemmas run_defs =
  plot_def getitem_def first_coord_def second_coord_def attrs_units_def paren_def
  ensure_figure_def get_axis_def on_axis_def draw_field_def put_title_def set_x_limit_def
  set_y_limit_def set_x_format_def add_colorbar_def set_xrng_def set_yrng_def
  day_night_background_def date_span_def site_location_def getattr_def
  first_date_def last_date_def zeros_like_axes_def store_set_def xrng_days_def
  dates_between_def numpy_to_arm_date_def day_of_def ns_per_day_def norm_index_def
  add_artist_def new_axis_def new_figure_def default_opts_def init_fields_def
  add_subplots_def init_def plt_subplots_def
  thenE_apply bindE_apply liftE_apply whenE_def Let_def

lemma upt_2: "[0..<2] = [0, 1]"
  by (simp add: upt_rec)

subsection \<open>Calls before any subplot exists\<close>

lemma date_span_known:
  "act_file_dates d \<noteq> [] \<or> (\<exists>sd ed. first_date d = Inr sd \<and> last_date d = Inr ed)
     \<Longrightarrow> \<exists>sp. date_span d = Inr sp"
  by (auto simp: date_span_def split: list.splits)

lemma not_displayed_errors:
  assumes "axes s = None"
  shows "(act_file_dates (arm s) \<noteq> []
            \<or> (\<exists>sd ed. first_date (arm s) = Inr sd \<and> last_date (arm s) = Inr ed) \<longrightarrow>
           fst (day_night_background h i s)
             = Inl (RuntimeError ''day_night_background requires the plot to be displayed.''))
       \<and> fst (set_xrng xr i s) = Inl (RuntimeError ''set_xrng requires the plot to be displayed.'')
       \<and> fst (set_yrng yr i s) = Inl (RuntimeError ''set_yrng requires the plot to be displayed.'')
       \<and> fst (add_colorbar mp ttl i s)
             = Inl (RuntimeError ''add_colorbar requires the plot to be displayed.'')"
  using assms date_span_known [of "arm s"]
  by (auto simp: set_xrng_not_displayed set_yrng_not_displayed add_colorbar_not_displayed
      day_night_not_displayed)

text \<open>
  Claim C3 says that each of \<open>day_night_background\<close>, \<open>set_xrng\<close>, \<open>set_yrng\<close> and
  \<open>add_colorbar\<close> fails with the not-yet-displayed error while the axes are unset.
  The three setters test the axes in their first statement (lemma
  \<open>not_displayed_errors\<close>). \<open>day_night_background\<close> raises the same error, but only
  after it has read the date span: on a fresh session over a dataset with no covered
  dates and no time sample, where \<open>set_xrng\<close> fails as the claim says, it fails with
  the index error of the read of the first sample.
\<close>

theorem day_night_guard_after_date_read:
  "axes (init_fields empty_dataset) = None \<and>
   act_file_dates empty_dataset = [] \<and>
   fst (set_xrng (XTime 0, XTime 1) [0] (init_fields empty_dataset))
     = Inl (RuntimeError ''set_xrng requires the plot to be displayed.'') \<and>
   fst (day_night_background sample_helpers [0] (init_fields empty_dataset)) = Inl IndexError \<and>
   fst (day_night_background sample_helpers [0] (init_fields empty_dataset))
     \<noteq> Inl (RuntimeError ''day_night_background requires the plot to be displayed.'')"
  by (simp add: day_night_background_def date_span_def first_date_def getattr_def getitem_def
      set_xrng_def empty_dataset_def)

subsection \<open>Building the grid\<close>

lemma add_subplots_bad_shape:
  assumes "length shape \<noteq> 1" "length shape \<noteq> 2"
  shows "add_subplots shape s =
     (case fig s of FigDeleted \<Rightarrow> (Inl AttributeError, s)
      | FigNone \<Rightarrow> (Inl (ValueError ''subplot_shape must be a 1 or 2 dimensional tuplelist, or array!''), s)
      | Fig g \<Rightarrow> (Inl (ValueError ''subplot_shape must be a 1 or 2 dimensional tuplelist, or array!''), s\<lparr>fig := FigDeleted\<rparr>))"
  using assms
  by (cases "fig s") (auto simp: add_subplots_def thenE_apply split: list.splits)

text \<open>
  While the session has its figure attribute, a shape whose length is neither 1 nor 2
  is refused with the invalid-shape error; in every case the call fails, the axes stay
  as they were and the session holds no figure afterwards.
\<close>

lemma add_subplots_invalid_shape:
  assumes "length shape \<noteq> 1" "length shape \<noteq> 2"
  shows "(fig s \<noteq> FigDeleted \<longrightarrow> fst (add_subplots shape s)
            = Inl (ValueError ''subplot_shape must be a 1 or 2 dimensional tuplelist, or array!''))
       \<and> (\<exists>e. fst (add_subplots shape s) = Inl e)
       \<and> axes (snd (add_subplots shape s)) = axes s
       \<and> (\<forall>g. fig (snd (add_subplots shape s)) \<noteq> Fig g)"
  by (cases "fig s") (simp_all add: add_subplots_bad_shape [OF assms])

lemma plt_subplots_column:
  "1 \<le> n \<Longrightarrow>
   plt_subplots n 1 = Inr (if n = 1 then Bare new_axis else Arr1 (replicate (nat n) new_axis))"
  by (simp add: plt_subplots_def)

text \<open>
  While the session has its figure attribute, a shape \<open>(n,)\<close> with \<open>n\<close> at least one
  installs a one-dimensional array of exactly \<open>n\<close> axis handles, also when \<open>n = 1\<close>;
  every integer index from 0 to \<open>n - 1\<close> finds a handle and the index \<open>n\<close> and beyond
  find none.
\<close>

lemma add_subplots_one_dimensional:
  assumes "1 \<le> n" "fig s \<noteq> FigDeleted"
  shows "add_subplots [n] s
           = (Inr (), s\<lparr>fig := Fig new_figure, axes := Some (Arr1 (replicate (nat n) new_axis))\<rparr>)
       \<and> length (replicate (nat n) new_axis) = nat n
       \<and> (\<forall>i. 0 \<le> i \<and> i < n \<longrightarrow>
             axes_get (Arr1 (replicate (nat n) new_axis)) [i] = Inr (Elem new_axis))
       \<and> (\<forall>i. n \<le> i \<longrightarrow> axes_get (Arr1 (replicate (nat n) new_axis)) [i] = Inl IndexError)"
proof (intro conjI allI impI)
  show "add_subplots [n] s
           = (Inr (), s\<lparr>fig := Fig new_figure, axes := Some (Arr1 (replicate (nat n) new_axis))\<rparr>)"
    using assms
    by (cases "fig s") (auto simp: add_subplots_def thenE_apply bindE_apply plt_subplots_column)
next
  show "length (replicate (nat n) new_axis) = nat n" by simp
next
  fix i assume "0 \<le> i \<and> i < n"
  then show "axes_get (Arr1 (replicate (nat n) new_axis)) [i] = Inr (Elem new_axis)"
    by (simp add: norm_index_def)
next
  fix i assume "n \<le> i"
  then show "axes_get (Arr1 (replicate (nat n) new_axis)) [i] = Inl IndexError"
    using assms(1) by (simp add: norm_index_def)
qed

text \<open>
  Claim C8 says that every shape whose length is neither 1 nor 2 is refused with the
  invalid-shape error. Line 114 deletes the attribute \<^verbatim>\<open>fig\<close> before the shape is
  looked at, and the refusal leaves it deleted: a second call with such a shape, on
  the same session, fails at line 113 with an attribute error instead.
\<close>

theorem invalid_shape_after_rejected_shape:
  "fst (add_subplots [1, 2, 3] sample_session)
     = Inl (ValueError ''subplot_shape must be a 1 or 2 dimensional tuplelist, or array!'') \<and>
   fig session_after_rejected_shape = FigDeleted \<and>
   fst (add_subplots [1, 2, 3] session_after_rejected_shape) = Inl AttributeError \<and>
   fst (add_subplots [] session_after_rejected_shape) = Inl AttributeError"
  by (simp add: session_after_rejected_shape_def sample_session_def init_def add_subplots_def
      plt_subplots_def thenE_apply bindE_apply init_fields_def Let_def numeral_2_eq_2)

text \<open>
  Claim C7 says that every shape \<open>(n,)\<close> with \<open>n\<close> at least one yields \<open>n\<close> axis
  handles. On a session on which a shape has been refused, the attribute \<^verbatim>\<open>fig\<close>
  is gone (line 114) and the call with the shape \<open>(3,)\<close> fails at line 113 with an
  attribute error: the session keeps the two handles it had.
\<close>

theorem grid_after_rejected_shape:
  "fig session_after_rejected_shape = FigDeleted \<and>
   fst (add_subplots [3] session_after_rejected_shape) = Inl AttributeError \<and>
   axes (snd (add_subplots [3] session_after_rejected_shape)) = Some (Arr1 [new_axis, new_axis])"
  by (simp add: session_after_rejected_shape_def sample_session_def init_def add_subplots_def
      plt_subplots_def thenE_apply bindE_apply init_fields_def Let_def numeral_2_eq_2)

subsection \<open>The label of the dataset\<close>

text \<open>
  Claim C5 says the label is taken from the alternate path when the primary identifier
  is absent. The constructor applies \<^verbatim>\<open>str\<close> before it tests for \<^verbatim>\<open>None\<close>, so
  the label is always the string of the primary identifier and the alternate path is
  never read: with the identifier absent the label is the text \<^verbatim>\<open>None\<close>.
\<close>

theorem label_fallback_never_taken:
  "ds (init_fields d) = py_str (act_datastream d) \<and>
   act_datastream empty_dataset = PyNone \<and>
   fallback_datastream empty_dataset = PyStr ''sgpmetE13.b1'' \<and>
   ds (init_fields empty_dataset) = PyStr ''None''"
  by (cases "act_datastream d") (simp_all add: init_fields_def empty_dataset_def)

subsection \<open>The list of plotted fields\<close>

text \<open>
  Claim C4 says that a field is in the session's list of plotted fields once \<open>plot\<close>
  has returned. No statement of \<open>plot\<close> touches \<^verbatim>\<open>plot_vars\<close>: after a plot that
  returns, the list is as empty as the constructor left it.
\<close>

theorem plot_does_not_record_field:
  "fst (plot sample_helpers ''temp'' [0] default_opts (init_fields sample_dataset)) = Inr () \<and>
   plot_vars (snd (plot sample_helpers ''temp'' [0] default_opts (init_fields sample_dataset))) = []"
  by (simp add: run_defs sample_dataset_def sample_helpers_def upt_2)

subsection \<open>Day and night shading\<close>

lemma norm_index_less: "norm_index n i = Inr k \<Longrightarrow> k < n"
  by (auto simp: norm_index_def split: if_splits)

lemma axes_get_upd_same:
  "axes_get arr idx = Inr (Elem ax) \<Longrightarrow> axes_get (axes_upd arr idx f) idx = Inr (Elem (f ax))"
proof (induction arr idx rule: axes_get.induct)
  case (7 rows i j)
  then obtain k l where k: "norm_index (length rows) i = Inr k"
    and l: "norm_index (length (rows ! k)) j = Inr l" and ax: "ax = rows ! k ! l"
    by (auto split: sum.splits)
  have "k < length rows" "l < length (rows ! k)"
    using k l by (auto dest: norm_index_less)
  then show ?case using k l ax by simp
qed (auto split: sum.splits dest: norm_index_less)

lemma on_axis_success:
  "axes s = Some arr \<Longrightarrow> axes_get arr idx = Inr (Elem ax) \<Longrightarrow>
   on_axis idx f s = (Inr (), s\<lparr>axes := Some (axes_upd arr idx f)\<rparr>)"
  by (simp add: on_axis_def get_axis_def bindE_apply)

lemma shade_days_artists:
  "shade_days h la lo days ax = ax\<lparr>artists := artists ax @ bands_and_lines h la lo days\<rparr>"
  by (induction days arbitrary: ax) (simp_all add: bands_and_lines_def Let_def)

lemma count_bands: "length (filter is_span (bands_and_lines h la lo days)) = length days"
  by (induction days) (simp_all add: bands_and_lines_def)

lemma count_lines: "length (filter is_vline (bands_and_lines h la lo days)) = length days"
  by (induction days) (simp_all add: bands_and_lines_def)

lemma length_dates_between: "length (dates_between sdate edate) = nat (edate - sdate + 1)"
  by (simp add: dates_between_def)


text \<open>
  Claim C6. On an existing axis, with the site's coordinates readable, the shading of
  the date span from \<open>sdate\<close> to \<open>edate\<close> succeeds, sets the background colour and
  appends to the axis, for every day of the inclusive span in order, one band from
  sunrise to sunset and one dashed line at solar noon: \<open>edate - sdate + 1\<close> bands and
  as many lines, one of each for a single day.
\<close>

theorem day_night_bands:
  assumes "axes s = Some arr" "axes_get arr idx = Inr (Elem ax)"
    and "site_location (arm s) = Inr (la, lo)" "date_span (arm s) = Inr (sdate, edate)"
  shows "fst (day_night_background h idx s) = Inr ()
       \<and> axis_at (snd (day_night_background h idx s)) idx
           = Some (ax\<lparr>facecolor := Some ''0.85'',
                       artists := artists ax @ bands_and_lines h la lo (dates_between sdate edate)\<rparr>)
       \<and> length (dates_between sdate edate) = nat (edate - sdate + 1)
       \<and> length (filter is_span (bands_and_lines h la lo (dates_between sdate edate)))
           = nat (edate - sdate + 1)
       \<and> length (filter is_vline (bands_and_lines h la lo (dates_between sdate edate)))
           = nat (edate - sdate + 1)"
proof -
  let ?f = "\<lambda>a. a\<lparr>facecolor := Some ''0.85''\<rparr>"
  let ?s1 = "s\<lparr>axes := Some (axes_upd arr idx ?f)\<rparr>"
  let ?g = "shade_days h la lo (dates_between sdate edate)"
  have 1: "on_axis idx ?f s = (Inr (), ?s1)"
    using assms(1,2) by (rule on_axis_success)
  have 2: "on_axis idx ?g ?s1 = (Inr (), ?s1\<lparr>axes := Some (axes_upd (axes_upd arr idx ?f) idx ?g)\<rparr>)"
    by (rule on_axis_success) (simp_all add: axes_get_upd_same [OF assms(2)])
  have run: "day_night_background h idx s
      = (Inr (), ?s1\<lparr>axes := Some (axes_upd (axes_upd arr idx ?f) idx ?g)\<rparr>)"
    using assms 1 2 by (simp add: day_night_background_def thenE_apply)
  show ?thesis
    by (simp add: run axis_at_def axes_get_upd_same [OF axes_get_upd_same [OF assms(2)]]
        shade_days_artists count_bands count_lines length_dates_between)
qed



theorem day_night_bands_witness:
  "axes sample_session = Some (Arr1 [new_axis, new_axis]) \<and>
   axes_get (Arr1 [new_axis, new_axis]) [0] = Inr (Elem new_axis) \<and>
   site_location (arm sample_session) = Inr (36, - 97) \<and>
   date_span (arm sample_session) = Inr (0, 1) \<and>
   fst (day_night_background sample_helpers [0] sample_session) = Inr () \<and>
   length (dates_between 0 1) = 2 \<and>
   length (filter is_span (bands_and_lines sample_helpers 36 (- 97) (dates_between 0 1))) = 2 \<and>
   length (filter is_vline (bands_and_lines sample_helpers 36 (- 97) (dates_between 0 1))) = 2"
  using day_night_bands [of sample_session "Arr1 [new_axis, new_axis]" "[0]" new_axis
      36 "- 97" 0 1 sample_helpers]
  by (simp add: sample_session_def run_defs sample_dataset_def numeral_2_eq_2)

subsection \<open>The x-range store holds whole days\<close>

lemma pair_get_simps [simp]: "pair_get p 0 = Inr (fst p)" "pair_get p 1 = Inr (snd p)"
  by (cases p; simp add: norm_index_def)+

lemma store_round_trip_1:
  assumes "axes_get (Arr1 xs) idx = Inr (Elem ax)" "length rows = length xs"
    and "store_set (Store1 rows) idx v = Inr st'"
  shows "store_get st' idx = Inr (Pairs [v]) \<and> xrng_days st' idx = Inr [snd v - fst v]"
proof -
  obtain i where idx: "idx = [i]"
    using assms(1) by (cases "(Arr1 xs, idx)" rule: axes_get.cases) auto
  obtain k where k: "norm_index (length rows) i = Inr k"
    using assms(3) idx by (auto simp: store_set_def split: sum.splits)
  have kl: "k < length rows" using k by (rule norm_index_less)
  have st': "st' = Store1 (rows[k := v])"
    using assms(3) idx k by (simp add: store_set_def)
  show ?thesis
    using k kl by (simp add: st' idx xrng_days_def)
qed

lemma store_round_trip_2:
  assumes "axes_get (Arr2 ars) idx = Inr (Elem ax)"
    and "list_all2 (\<lambda>r a. length r = length a) rows ars"
    and "store_set (Store2 rows) idx v = Inr st'"
  shows "store_get st' idx = Inr (Pairs [v]) \<and> xrng_days st' idx = Inr [snd v - fst v]"
proof -
  obtain i j where idx: "idx = [i, j]"
    using assms(1) by (cases "(Arr2 ars, idx)" rule: axes_get.cases) (auto split: sum.splits)
  have len: "length rows = length ars"
    using assms(2) by (rule list_all2_lengthD)
  obtain k l where k: "norm_index (length ars) i = Inr k"
    and l: "norm_index (length (ars ! k)) j = Inr l"
    using assms(1) idx by (auto split: sum.splits)
  have kl: "k < length rows" using k len by (auto dest: norm_index_less)
  have rowlen: "length (rows ! k) = length (ars ! k)"
    using assms(2) kl by (simp add: list_all2_conv_all_nth)
  have ll: "l < length (rows ! k)" using l rowlen by (auto dest: norm_index_less)
  obtain k2 where k2: "norm_index (length rows) j = Inr k2"
    using assms(3) idx by (auto simp: store_set_def split: sum.splits)
  have k2l: "k2 < length rows" using k2 by (rule norm_index_less)
  let ?rows1 = "rows[k := map (\<lambda>_. v) (rows ! k)]"
  let ?rows2 = "?rows1[k2 := map (\<lambda>_. v) (?rows1 ! k2)]"
  have st': "st' = Store2 ?rows2"
    using assms(3) idx k k2 len by (simp add: store_set_def)
  have row: "?rows2 ! k = map (\<lambda>_. v) (rows ! k)"
    using kl k2l by (cases "k2 = k") simp_all
  have get: "store_get st' [i, j] = Inr (Pairs [v])"
    using k l ll len rowlen by (simp add: st' row del: list_update_overwrite)
  have hi: "store_get st' [i, j, 1] = Inr (Scalar (snd v))"
    using k l ll len rowlen by (simp add: st' row del: list_update_overwrite)
  have lo: "store_get st' [i, j, 0] = Inr (Scalar (fst v))"
    using k l ll len rowlen by (simp add: st' row del: list_update_overwrite)
  show ?thesis
    using get hi lo by (simp add: idx xrng_days_def)
qed

lemma store_round_trip:
  assumes "axes_get arr idx = Inr (Elem ax)" "fits_grid arr st"
    and "store_set st idx v = Inr st'"
  shows "store_get st' idx = Inr (Pairs [v]) \<and> xrng_days st' idx = Inr [snd v - fst v]"
  using assms
  by (cases "(arr, st)" rule: fits_grid.cases)
     (auto dest: store_round_trip_1 store_round_trip_2)

lemma set_xrng_success:
  assumes "set_xrng rng idx s = (Inr u, s')"
  shows "\<exists>arr ax st0 st'. axes s = Some arr \<and> axes_get arr idx = Inr (Elem ax)
           \<and> (case xrng s of None \<Rightarrow> zeros_like_axes arr 0 = Inr st0 | Some st \<Rightarrow> st0 = st)
           \<and> store_set st0 idx (to_day (fst rng), to_day (snd rng)) = Inr st'
           \<and> s' = s\<lparr>axes := Some (axes_upd arr idx (\<lambda>ax. ax\<lparr>xlim := Some rng\<rparr>)),
                    xrng := Some st'\<rparr>"
  using assms
  by (auto simp: set_xrng_def on_axis_def get_axis_def thenE_apply bindE_apply liftE_apply
      split: option.splits sum.splits prod.splits item.splits)

subsection \<open>Properties that plot preserves\<close>

lemma preservesI: "(\<And>s. P s \<Longrightarrow> P (snd (m s))) \<Longrightarrow> preserves P m"
  by (simp add: preserves_def)

lemma preservesD: "preserves P m \<Longrightarrow> P s \<Longrightarrow> m s = (r, s') \<Longrightarrow> P s'"
  by (auto simp: preserves_def)

lemma preserves_pure [simp]:
  "preserves P (returnE a)" "preserves P (raise e)" "preserves P (gets g)" "preserves P (liftE r)"
  by (auto simp: preserves_def liftE_apply split: sum.splits)

lemma preserves_modify: "(\<And>s. P s \<Longrightarrow> P (f s)) \<Longrightarrow> preserves P (modify f)"
  by (simp add: preserves_def)

lemma preserves_bindE:
  "preserves P m \<Longrightarrow> (\<And>a. preserves P (f a)) \<Longrightarrow> preserves P (bindE m f)"
  unfolding preserves_def bindE_def
  by (auto split: prod.splits sum.splits)

lemma preserves_thenE: "preserves P m \<Longrightarrow> preserves P k \<Longrightarrow> preserves P (thenE m k)"
  by (simp add: thenE_def preserves_bindE)

lemma preserves_whenE: "preserves P m \<Longrightarrow> preserves P (whenE b m)"
  by (simp add: whenE_def)

lemma preserves_case_prod:
  "(\<And>a b. preserves P (f a b)) \<Longrightarrow> preserves P (case p of (a, b) \<Rightarrow> f a b)"
  by (cases p) simp

lemma preserves_case_option:
  "preserves P a \<Longrightarrow> (\<And>x. preserves P (b x)) \<Longrightarrow>
   preserves P (case v of None \<Rightarrow> a | Some x \<Rightarrow> b x)"
  by (cases v) simp_all

lemma preserves_if:
  "preserves P a \<Longrightarrow> preserves P b \<Longrightarrow> preserves P (if c then a else b)"
  by simp

lemmas preserves_intros =
  preserves_bindE preserves_thenE preserves_whenE preserves_case_prod preserves_case_option
  preserves_if preserves_pure

lemma preserves_get_axis [simp]: "preserves P (get_axis i)"
  by (auto simp: get_axis_def intro!: preserves_bindE split: option.splits)

lemma preserves_on_axis:
  assumes "\<And>s arr. P s \<Longrightarrow> axes s = Some arr \<Longrightarrow> P (s\<lparr>axes := Some (axes_upd arr i f)\<rparr>)"
  shows "preserves P (on_axis i f)"
proof (rule preservesI)
  fix s assume P: "P s"
  show "P (snd (on_axis i f s))"
  proof (cases "axes s")
    case None
    then show ?thesis using P by (simp add: on_axis_def get_axis_def bindE_apply)
  next
    case (Some arr)
    then show ?thesis using P assms [OF P Some]
      by (auto simp: on_axis_def get_axis_def bindE_apply liftE_apply
          split: sum.splits item.splits)
  qed
qed

lemma display_closed_grid: "display_closed P \<Longrightarrow> grid_closed P"
  by (simp add: display_closed_def)

lemma closed_on_axis:
  "grid_closed P \<Longrightarrow> (\<And>ax. xlim (f ax) = xlim ax) \<Longrightarrow> preserves P (on_axis i f)"
  by (rule preserves_on_axis) (auto simp: grid_closed_def)

lemma shade_days_xlim: "xlim (shade_days h la lo days ax) = xlim ax"
  by (induction days arbitrary: ax) (simp_all add: Let_def)

lemma closed_day_night:
  assumes "grid_closed P"
  shows "preserves P (day_night_background h i)"
  unfolding day_night_background_def
  by (intro preserves_intros closed_on_axis [OF assms]) (simp_all add: shade_days_xlim)

lemma closed_ensure_figure:
  assumes "grid_closed P"
  shows "preserves P ensure_figure"
proof (rule preservesI)
  fix s assume P: "P s"
  have fg: "P (s\<lparr>fig := f\<rparr>)" for f
    using assms P by (simp add: grid_closed_def)
  have new: "P (t\<lparr>axes := Some (Arr1 [new_axis])\<rparr>)" if "P t" "axes t = None" for t
    using assms that by (simp add: grid_closed_def)
  show "P (snd (ensure_figure s))"
    using P fg new [of s] new [of "s\<lparr>fig := Fig new_figure\<rparr>"]
    by (cases "fig s"; cases "axes s") (simp_all add: ensure_figure_def thenE_apply)
qed

lemma closed_draw_field:
  assumes "grid_closed P"
  shows "preserves P (draw_field h data xdata ydata i opts)"
  unfolding draw_field_def Let_def
  by (intro preserves_intros closed_on_axis [OF assms] closed_day_night [OF assms])
     (simp_all add: add_artist_def)

lemma closed_put_title:
  assumes "grid_closed P"
  shows "preserves P (put_title field i opts)"
  unfolding put_title_def
  by (intro preserves_intros closed_on_axis [OF assms]) (simp_all split: pyval.splits)

lemma closed_set_x_format:
  assumes "grid_closed P"
  shows "preserves P (set_x_format h i)"
  unfolding set_x_format_def
  by (intro preserves_intros closed_on_axis [OF assms]) simp_all

lemma closed_add_colorbar:
  assumes "display_closed P"
  shows "preserves P (add_colorbar m t i)"
proof -
  have "P (s\<lparr>fig := f, cbs := c\<rparr>)" if "P s" for s f c
  proof -
    have "P ((s\<lparr>fig := f\<rparr>)\<lparr>cbs := c\<rparr>)"
      using assms that unfolding display_closed_def grid_closed_def by blast
    then show ?thesis by simp
  qed
  then show ?thesis
    unfolding add_colorbar_def Let_def
    by (intro preserves_intros preserves_get_axis preserves_modify)
       (auto split: fig_attr.splits intro!: preserves_modify preserves_thenE)
qed

lemma closed_set_yrng:
  assumes "grid_closed P" "\<And>s y. P s \<Longrightarrow> P (s\<lparr>yrng := y\<rparr>)"
  shows "preserves P (set_yrng r i)"
  unfolding set_yrng_def
  by (intro preserves_intros closed_on_axis [OF assms(1)] preserves_modify)
     (simp_all add: assms(2))

lemma closed_set_y_limit:
  assumes "grid_closed P" "\<And>s y. P s \<Longrightarrow> P (s\<lparr>yrng := y\<rparr>)"
  shows "preserves P (set_y_limit ydata i)"
  unfolding set_y_limit_def
  by (intro preserves_intros closed_set_yrng [OF assms]) simp_all

lemma closed_set_xrng:
  assumes "display_closed P" "\<And>s a. P s \<Longrightarrow> P (s\<lparr>axes := a\<rparr>)"
  shows "preserves P (set_xrng r i)"
proof -
  have x: "P (s\<lparr>xrng := x\<rparr>)" if "P s" for s x
    using assms(1) that by (simp add: display_closed_def)
  show ?thesis
    unfolding set_xrng_def
    by (intro preserves_intros preserves_on_axis preserves_modify) (simp_all add: assms(2) x)
qed

lemma closed_set_x_limit:
  assumes "display_closed P" "\<And>s a. P s \<Longrightarrow> P (s\<lparr>axes := a\<rparr>)"
    and "\<And>s t. P s \<Longrightarrow> P (s\<lparr>time_rng := t\<rparr>)"
  shows "preserves P (set_x_limit x i)"
  unfolding set_x_limit_def
  by (intro preserves_intros closed_set_xrng [OF assms(1,2)] preserves_modify)
     (simp_all add: assms(3))


lemma plot_success:
  assumes "plot h field idx opts s = (Inr u, s')"
  obtains data xdata ydata x mesh yt s1 s2 s3 s4 s5 s6 s7 where
    "getitem (arm s) field = Inr data" "first_coord (arm s) data = Inr xdata"
    "second_coord (arm s) data = Inr ydata"
    "ensure_figure s = (Inr (), s1)"
    "draw_field h data xdata ydata idx opts s1 = (Inr (x, mesh), s2)"
    "put_title field idx opts s2 = (Inr (), s3)"
    "on_axis idx (\<lambda>ax. ax\<lparr>ylabel := Some yt\<rparr>) s3 = (Inr (), s4)"
    "set_x_limit x idx s4 = (Inr (), s5)"
    "set_y_limit ydata idx s5 = (Inr (), s6)"
    "set_x_format h idx s6 = (Inr (), s7)"
    "mesh = None \<and> s' = s7 \<or> (\<exists>m t c. add_colorbar m t idx s7 = (Inr c, s'))"
proof -
  have st: "get_axis idx t = (r, t') \<Longrightarrow> t' = t" for t r t'
    using get_axis_state [of idx t] by simp
  show ?thesis
    using assms
    by (auto simp: plot_def bindE_apply thenE_apply liftE_apply
        split: sum.splits prod.splits option.splits dest!: st intro!: that)
qed


lemma set_y_limit_fails:
  assumes "yrng s = Some st"
  shows "\<exists>e. fst (set_y_limit ydata i s) = Inl e"
proof (cases "store_get st i")
  case (Inl e)
  then show ?thesis using assms by (simp add: set_y_limit_def)
next
  case (Inr c)
  show ?thesis
  proof (cases c)
    case (Scalar x)
    then show ?thesis using assms Inr by (simp add: set_y_limit_def)
  next
    case (Pairs ps)
    show ?thesis
    proof (cases ps)
      case Nil
      then show ?thesis using assms Inr Pairs by (simp add: set_y_limit_def)
    next
      case (Cons p rest)
      then show ?thesis using assms Inr Pairs
        by (cases p) (simp add: set_y_limit_def)
    qed
  qed
qed

lemma plot_head:
  assumes cl: "grid_closed P" and P: "P s"
    and 1: "ensure_figure s = (Inr (), s1)"
    and 2: "draw_field h data xdata ydata idx opts s1 = (Inr (x, mesh), s2)"
    and 3: "put_title field idx opts s2 = (Inr (), s3)"
    and 4: "on_axis idx (\<lambda>ax. ax\<lparr>ylabel := Some yt\<rparr>) s3 = (Inr (), s4)"
  shows "P s4"
proof -
  have p1: "P s1" by (rule preservesD [OF closed_ensure_figure [OF cl] P 1])
  have p2: "P s2" by (rule preservesD [OF closed_draw_field [OF cl] p1 2])
  have p3: "P s3" by (rule preservesD [OF closed_put_title [OF cl] p2 3])
  show "P s4" by (rule preservesD [OF closed_on_axis [OF cl] p3 4]) simp
qed

lemma plot_tail:
  assumes cl: "display_closed P" and yr: "\<And>s y. P s \<Longrightarrow> P (s\<lparr>yrng := y\<rparr>)"
    and p5: "P s5"
    and 6: "set_y_limit ydata idx s5 = (Inr (), s6)"
    and 7: "set_x_format h idx s6 = (Inr (), s7)"
    and 8: "mesh = None \<and> s' = s7 \<or> (\<exists>m t c. add_colorbar m t idx s7 = (Inr c, s'))"
  shows "P s'"
proof -
  have gc: "grid_closed P" using cl by (rule display_closed_grid)
  have p6: "P s6" by (rule preservesD [OF closed_set_y_limit [OF gc yr] p5 6])
  have p7: "P s7" by (rule preservesD [OF closed_set_x_format [OF gc] p6 7])
  from 8 show "P s'"
  proof
    assume "mesh = None \<and> s' = s7"
    then show ?thesis using p7 by simp
  next
    assume "\<exists>m t c. add_colorbar m t idx s7 = (Inr c, s')"
    then obtain m t c where "add_colorbar m t idx s7 = (Inr c, s')" by blast
    then show ?thesis by (rule preservesD [OF closed_add_colorbar [OF cl] p7])
  qed
qed

lemma plot_stages:
  assumes ok: "plot h field idx opts s = (Inr u, s')"
    and cl: "display_closed P" and yr: "\<And>s y. P s \<Longrightarrow> P (s\<lparr>yrng := y\<rparr>)"
    and xl: "\<And>x. preserves P (set_x_limit x idx)"
    and P: "P s"
  shows "P s'"
proof -
  from ok obtain data xdata ydata x mesh yt s1 s2 s3 s4 s5 s6 s7 where
    1: "ensure_figure s = (Inr (), s1)"
    and 2: "draw_field h data xdata ydata idx opts s1 = (Inr (x, mesh), s2)"
    and 3: "put_title field idx opts s2 = (Inr (), s3)"
    and 4: "on_axis idx (\<lambda>ax. ax\<lparr>ylabel := Some yt\<rparr>) s3 = (Inr (), s4)"
    and 5: "set_x_limit x idx s4 = (Inr (), s5)"
    and 6: "set_y_limit ydata idx s5 = (Inr (), s6)"
    and 7: "set_x_format h idx s6 = (Inr (), s7)"
    and 8: "mesh = None \<and> s' = s7 \<or> (\<exists>m t c. add_colorbar m t idx s7 = (Inr c, s'))"
    by (rule plot_success)
  have p4: "P s4" by (rule plot_head [OF display_closed_grid [OF cl] P 1 2 3 4])
  have p5: "P s5" by (rule preservesD [OF xl p4 5])
  show "P s'" by (rule plot_tail [OF cl yr p5 6 7 8])
qed

lemma plot_fails_when_yrng_set:
  assumes "yrng s = Some st"
  shows "\<exists>e. fst (plot h field idx opts s) = Inl e"
proof (cases "plot h field idx opts s")
  case (Pair r s')
  show ?thesis
  proof (cases r)
    case (Inl e)
    then show ?thesis using Pair by simp
  next
    case (Inr u)
    let ?P = "\<lambda>t. yrng t = Some st"
    have cl: "display_closed ?P" by (simp add: display_closed_def grid_closed_def)
    have gc: "grid_closed ?P" using cl by (rule display_closed_grid)
    from Pair Inr obtain data xdata ydata x mesh yt s1 s2 s3 s4 s5 s6 where
      1: "ensure_figure s = (Inr (), s1)"
      and 2: "draw_field h data xdata ydata idx opts s1 = (Inr (x, mesh), s2)"
      and 3: "put_title field idx opts s2 = (Inr (), s3)"
      and 4: "on_axis idx (\<lambda>ax. ax\<lparr>ylabel := Some yt\<rparr>) s3 = (Inr (), s4)"
      and 5: "set_x_limit x idx s4 = (Inr (), s5)"
      and 6: "set_y_limit ydata idx s5 = (Inr (), s6)"
      by (auto elim: plot_success)
    have p1: "?P s1" by (rule preservesD [OF closed_ensure_figure [OF gc] assms 1])
    have p2: "?P s2" by (rule preservesD [OF closed_draw_field [OF gc] p1 2])
    have p3: "?P s3" by (rule preservesD [OF closed_put_title [OF gc] p2 3])
    have p4: "?P s4" by (rule preservesD [OF closed_on_axis [OF gc] p3 4]) simp
    have p5: "?P s5" by (rule preservesD [OF closed_set_x_limit [OF cl] p4 5]) simp_all
    show ?thesis using set_y_limit_fails [OF p5, of ydata idx] 6 by simp
  qed
qed

lemma plot_keeps_plot_vars:
  assumes "plot h field idx opts s = (Inr u, s')"
  shows "plot_vars s' = plot_vars s"
proof -
  let ?P = "\<lambda>t. plot_vars t = plot_vars s"
  have cl: "display_closed ?P" by (simp add: display_closed_def grid_closed_def)
  have "?P s'"
    by (rule plot_stages [OF assms cl]) (simp_all add: closed_set_x_limit [OF cl])
  then show ?thesis .
qed

subsection \<open>The y-range of a plot\<close>

text \<open>
  Claim C2 says that \<open>plot\<close> reapplies a y-range stored for the subplot and otherwise
  applies the field's own minimum and maximum. The test of line 340 asks for the truth
  value of an element-wise comparison of two values, which numpy refuses: once a
  y-range store exists every \<open>plot\<close> raises there (lemma \<open>plot_fails_when_yrng_set\<close>),
  so a range set on subplot \<open>(0,)\<close> is not reapplied by a plot of the 2-D field; and
  while no store exists \<open>plot\<close> sets no y-limits at all.
\<close>

theorem stored_y_range_makes_plot_fail:
  "fst (set_yrng (0, 10) [0] sample_session) = Inr () \<and>
   yrng (snd (set_yrng (0, 10) [0] sample_session)) = Some (Store1 [(0, 10), (0, 0)]) \<and>
   fst (plot sample_helpers ''refl'' [0] default_opts (snd (set_yrng (0, 10) [0] sample_session)))
     = Inl (ValueError ''The truth value of an array with more than one element is ambiguous'') \<and>
   fst (plot sample_helpers ''refl'' [1] default_opts sample_session) = Inr () \<and>
   yrng (snd (plot sample_helpers ''refl'' [1] default_opts sample_session)) = None \<and>
   map_option ylim (axis_at (snd (plot sample_helpers ''refl'' [1] default_opts sample_session)) [1])
     = Some None"
  by (simp add: sample_session_def axis_at_def run_defs sample_dataset_def sample_helpers_def
      numeral_2_eq_2)

subsection \<open>One time range for all subplots\<close>

lemma upd_nth_cases:
  "k < length xs \<Longrightarrow>
   xs[m := g (xs ! m)] ! k = xs ! k \<or> xs[m := g (xs ! m)] ! k = g (xs ! k)"
  by (cases "m = k") simp_all

lemma upd_row_length:
  "k < length rows \<Longrightarrow>
   length (rows[m := (rows ! m)[n := y]] ! k) = length (rows ! k)"
  by (cases "m = k") simp_all

lemma upd_row_nth_cases:
  "k < length rows \<Longrightarrow> l < length (rows ! k) \<Longrightarrow>
   rows[m := (rows ! m)[n := g (rows ! m ! n)]] ! k ! l = rows ! k ! l
   \<or> rows[m := (rows ! m)[n := g (rows ! m ! n)]] ! k ! l = g (rows ! k ! l)"
  by (cases "m = k"; cases "n = l") simp_all

lemma axes_get_upd_other:
  assumes "axes_get arr i = Inr (Elem ax)"
  shows "axes_get (axes_upd arr j f) i = Inr (Elem ax)
       \<or> axes_get (axes_upd arr j f) i = Inr (Elem (f ax))"
proof (cases "(arr, j, f)" rule: axes_upd.cases)
  case (1 xs j0 g)
  obtain i0 k where i: "i = [i0]" "norm_index (length xs) i0 = Inr k" "ax = xs ! k"
    using assms 1 by (cases "(arr, i)" rule: axes_get.cases) (auto split: sum.splits)
  have kl: "k < length xs" using i(2) by (rule norm_index_less)
  show ?thesis
  proof (cases "norm_index (length xs) j0")
    case (Inl e)
    then show ?thesis using 1 assms by simp
  next
    case (Inr m)
    then show ?thesis using 1 i upd_nth_cases [OF kl, of m g] by auto
  qed
next
  case (2 rows j0 j1 g)
  obtain i0 i1 k l where i: "i = [i0, i1]" "norm_index (length rows) i0 = Inr k"
    "norm_index (length (rows ! k)) i1 = Inr l" "ax = rows ! k ! l"
    using assms 2 by (cases "(arr, i)" rule: axes_get.cases) (auto split: sum.splits)
  have kl: "k < length rows" and ll: "l < length (rows ! k)"
    using i(2,3) by (auto dest: norm_index_less)
  show ?thesis
  proof (cases "norm_index (length rows) j0")
    case (Inl e)
    then show ?thesis using 2 assms by simp
  next
    case m: (Inr m)
    show ?thesis
    proof (cases "norm_index (length (rows ! m)) j1")
      case (Inl e)
      then show ?thesis using 2 m assms by simp
    next
      case (Inr n)
      then show ?thesis
        using 2 m i upd_row_nth_cases [OF kl ll, of m n g] upd_row_length [OF kl, of m n]
        by auto
    qed
  qed
qed (use assms in auto)


lemma axis_at_upd_other:
  assumes "axes s = Some arr" "axis_at s i = Some ax"
  shows "axis_at (s\<lparr>axes := Some (axes_upd arr j f)\<rparr>) i = Some ax
       \<or> axis_at (s\<lparr>axes := Some (axes_upd arr j f)\<rparr>) i = Some (f ax)"
proof -
  have "axes_get arr i = Inr (Elem ax)"
    using assms by (auto simp: axis_at_def split: sum.splits item.splits)
  from axes_get_upd_other [OF this, of j f] show ?thesis
    by (auto simp: axis_at_def)
qed

lemma keeps_range_upd:
  assumes "keeps_range r i s" "axes s = Some arr"
    and "\<And>ax::axis. xlim ax = Some r \<Longrightarrow> xlim (f ax) = Some r"
  shows "keeps_range r i (s\<lparr>axes := Some (axes_upd arr j f)\<rparr>)"
proof -
  obtain ax where ax: "axis_at s i = Some ax" "xlim ax = Some r" and t: "time_rng s = Some r"
    using assms(1) by (auto simp: keeps_range_def)
  from axis_at_upd_other [OF assms(2) ax(1), of j f] show ?thesis
    using ax(2) t assms(3) by (auto simp: keeps_range_def)
qed

lemma axis_at_simps [simp]:
  "axis_at (s\<lparr>fig := f\<rparr>) i = axis_at s i" "axis_at (s\<lparr>xrng := x\<rparr>) i = axis_at s i"
  "axis_at (s\<lparr>yrng := y\<rparr>) i = axis_at s i" "axis_at (s\<lparr>cbs := c\<rparr>) i = axis_at s i"
  "axis_at (s\<lparr>time_rng := t\<rparr>) i = axis_at s i"
  by (simp_all add: axis_at_def)

lemma keeps_range_closed: "display_closed (keeps_range r i)"
  unfolding display_closed_def grid_closed_def
proof (intro conjI allI impI)
  fix s arr j and f :: "axis \<Rightarrow> axis"
  assume "keeps_range r i s \<and> axes s = Some arr \<and> (\<forall>ax. xlim (f ax) = xlim ax)"
  then show "keeps_range r i (s\<lparr>axes := Some (axes_upd arr j f)\<rparr>)"
    by (auto intro: keeps_range_upd)
next
  fix s assume "keeps_range r i s \<and> axes s = None"
  then show "keeps_range r i (s\<lparr>axes := Some (Arr1 [new_axis])\<rparr>)"
    by (auto simp: keeps_range_def axis_at_def)
qed (simp_all add: keeps_range_def)

lemma keeps_range_set_xrng: "preserves (keeps_range r i) (set_xrng r j)"
  unfolding set_xrng_def
  by (intro preserves_intros preserves_on_axis preserves_modify keeps_range_upd)
     (simp_all add: keeps_range_def)

lemma keeps_range_set_x_limit: "preserves (keeps_range r i) (set_x_limit x j)"
proof (rule preservesI)
  fix s assume k: "keeps_range r i s"
  then have "time_rng s = Some r" by (simp add: keeps_range_def)
  then have "set_x_limit x j s = set_xrng r j s"
    by (simp add: set_x_limit_def thenE_apply)
  then show "keeps_range r i (snd (set_x_limit x j s))"
    using keeps_range_set_xrng [of r i j] k by (simp add: preserves_def)
qed

lemma plot_keeps_range:
  assumes "plot h field j opts s = (Inr u, s')" "keeps_range r i s"
  shows "keeps_range r i s'"
  by (rule plot_stages [OF assms(1) keeps_range_closed _ keeps_range_set_x_limit assms(2)])
     (simp add: keeps_range_def)

lemma set_x_limit_success:
  assumes "set_x_limit x idx s = (Inr u, s')"
  shows "\<exists>r. keeps_range r idx s'
            \<and> (time_rng s = Some r \<or> time_rng s = None \<and> x_extent x = Inr r)"
proof -
  have post: "keeps_range r idx t'"
    if run: "set_xrng r idx t = (Inr u, t')" and tr: "time_rng t = Some r" for r t t'
  proof -
    obtain arr ax st' where "axes_get arr idx = Inr (Elem ax)"
      and t': "t' = t\<lparr>axes := Some (axes_upd arr idx (\<lambda>ax. ax\<lparr>xlim := Some r\<rparr>)),
                      xrng := Some st'\<rparr>"
      using set_xrng_success [OF run] by auto
    then have "axes_get (axes_upd arr idx (\<lambda>ax. ax\<lparr>xlim := Some r\<rparr>)) idx
                 = Inr (Elem (ax\<lparr>xlim := Some r\<rparr>))"
      by (simp add: axes_get_upd_same)
    then show ?thesis using tr by (simp add: t' keeps_range_def axis_at_def)
  qed
  show ?thesis
  proof (cases "time_rng s")
    case (Some r)
    then have "set_xrng r idx s = (Inr u, s')"
      using assms by (simp add: set_x_limit_def thenE_apply)
    from post [OF this Some] Some show ?thesis by blast
  next
    case None
    then obtain r where r: "x_extent x = Inr r"
      and run: "set_xrng r idx (s\<lparr>time_rng := Some r\<rparr>) = (Inr u, s')"
      using assms by (cases "x_extent x") (simp_all add: set_x_limit_def thenE_apply)
    have "keeps_range r idx s'" by (rule post [OF run]) simp
    then show ?thesis using None r by blast
  qed
qed

lemma draw_field_x:
  assumes "draw_field h data xdata ydata idx opts s = (Inr (x, mesh), s')"
  shows "x = (if ydata \<noteq> None \<and> add_nan opts then fst (add_in_nan h (vals xdata) (vals data))
              else vals xdata)"
  using assms
  by (auto simp: draw_field_def thenE_apply Let_def
      split: option.splits prod.splits sum.splits if_splits)

lemma plot_sets_range:
  assumes ok: "plot h field idx opts s = (Inr u, s')"
  shows "\<exists>r. keeps_range r idx s' \<and>
           (time_rng s = Some r \<or>
            time_rng s = None \<and>
            (\<exists>data xdata ydata. getitem (arm s) field = Inr data
               \<and> first_coord (arm s) data = Inr xdata
               \<and> second_coord (arm s) data = Inr ydata
               \<and> x_extent (if ydata \<noteq> None \<and> add_nan opts
                                then fst (add_in_nan h (vals xdata) (vals data))
                                else vals xdata) = Inr r))"
proof -
  from ok obtain data xdata ydata x mesh yt s1 s2 s3 s4 s5 s6 s7 where
    d: "getitem (arm s) field = Inr data" "first_coord (arm s) data = Inr xdata"
      "second_coord (arm s) data = Inr ydata"
    and 1: "ensure_figure s = (Inr (), s1)"
    and 2: "draw_field h data xdata ydata idx opts s1 = (Inr (x, mesh), s2)"
    and 3: "put_title field idx opts s2 = (Inr (), s3)"
    and 4: "on_axis idx (\<lambda>ax. ax\<lparr>ylabel := Some yt\<rparr>) s3 = (Inr (), s4)"
    and 5: "set_x_limit x idx s4 = (Inr (), s5)"
    and 6: "set_y_limit ydata idx s5 = (Inr (), s6)"
    and 7: "set_x_format h idx s6 = (Inr (), s7)"
    and 8: "mesh = None \<and> s' = s7 \<or> (\<exists>m t c. add_colorbar m t idx s7 = (Inr c, s'))"
    by (rule plot_success)
  let ?P = "\<lambda>t. time_rng t = time_rng s"
  have cl: "grid_closed ?P" by (simp add: grid_closed_def)
  have t4: "time_rng s4 = time_rng s"
    by (rule plot_head [OF cl _ 1 2 3 4]) simp
  obtain r where k5: "keeps_range r idx s5"
    and r: "time_rng s4 = Some r \<or> time_rng s4 = None \<and> x_extent x = Inr r"
    using set_x_limit_success [OF 5] by blast
  have "keeps_range r idx s'"
    by (rule plot_tail [OF keeps_range_closed _ k5 6 7 8]) (simp add: keeps_range_def)
  moreover have "time_rng s = Some r \<or> time_rng s = None \<and>
      x_extent (if ydata \<noteq> None \<and> add_nan opts
                   then fst (add_in_nan h (vals xdata) (vals data)) else vals xdata) = Inr r"
    using r t4 draw_field_x [OF 2] by simp
  ultimately show ?thesis
    using d by blast
qed


lemma plot_all_keeps_range:
  "plot_all h calls s = (Inr u, s') \<Longrightarrow> keeps_range r i s \<Longrightarrow> keeps_range r i s'"
proof (induction calls arbitrary: s)
  case Nil
  then show ?case by simp
next
  case (Cons c calls)
  obtain field j opts where c: "c = (field, j, opts)" by (cases c)
  from Cons.prems(1) obtain v s1 where 1: "plot h field j opts s = (Inr v, s1)"
    and 2: "plot_all h calls s1 = (Inr u, s')"
    by (auto simp: c split: prod.splits sum.splits)
  have "keeps_range r i s1" by (rule plot_keeps_range [OF 1 Cons.prems(2)])
  then show ?case by (rule Cons.IH [OF 2])
qed

lemma plot_all_sets_range:
  "plot_all h calls s = (Inr u, s') \<Longrightarrow> time_rng s = Some r \<Longrightarrow>
   (field, i, opts) \<in> set calls \<Longrightarrow> keeps_range r i s'"
proof (induction calls arbitrary: s)
  case Nil
  then show ?case by simp
next
  case (Cons c calls)
  obtain f j p where c: "c = (f, j, p)" by (cases c)
  from Cons.prems(1) obtain v s1 where 1: "plot h f j p s = (Inr v, s1)"
    and 2: "plot_all h calls s1 = (Inr u, s')"
    by (auto simp: c split: prod.splits sum.splits)
  obtain r' where k: "keeps_range r' j s1" and "time_rng s = Some r' \<or> time_rng s = None \<and> True"
    using plot_sets_range [OF 1] by blast
  then have r': "r' = r" using Cons.prems(2) by simp
  have t1: "time_rng s1 = Some r" using k r' by (simp add: keeps_range_def)
  show ?case
  proof (cases "(field, i, opts) = c")
    case True
    then have "i = j" using c by simp
    then show ?thesis using plot_all_keeps_range [OF 2] k r' by simp
  next
    case False
    then have "(field, i, opts) \<in> set calls" using Cons.prems(3) by simp
    then show ?thesis by (rule Cons.IH [OF 2 t1])
  qed
qed

lemma x_extent_Times:
  assumes "x_extent (Times ts) = Inr (lo, hi)"
  shows "ts \<noteq> [] \<and> lo = XTime (Min (set ts)) \<and> hi = XTime (Max (set ts))"
proof (cases ts)
  case Nil
  then show ?thesis using assms by simp
next
  case (Cons t rest)
  have "fold min rest t = Min (set (t # rest))" "fold max rest t = Max (set (t # rest))"
    by (simp_all only: Min.set_eq_fold Max.set_eq_fold)
  then show ?thesis using Cons assms by auto
qed

lemma x_extent_Nums:
  assumes "x_extent (Nums xs) = Inr (lo, hi)"
  shows "xs \<noteq> [] \<and> lo = XNum (Min (set xs)) \<and> hi = XNum (Max (set xs))"
proof (cases xs)
  case Nil
  then show ?thesis using assms by simp
next
  case (Cons x rest)
  have "fold min rest x = Min (set (x # rest))" "fold max rest x = Max (set (x # rest))"
    by (simp_all only: Min.set_eq_fold Max.set_eq_fold)
  then show ?thesis using Cons assms by auto
qed

text \<open>
  Claim C1. On a session whose time range is not yet set, let a run of plot calls
  return, the first of them for field A. Then the session's time range is the pair of
  the minimum and the maximum of A's x-coordinate, and every subplot index used by a
  call of the run, the first or a later one, has exactly that pair as its x-limits:
  the range is computed by the first call and applied, unchanged, by each later one.
  Where the first call asks for gap filling, the gap filler is taken to keep the first
  and last sample.
\<close>

theorem shared_time_range:
  assumes none: "time_rng s = None"
    and run: "plot_all h ((fieldA, iA, optsA) # calls) s = (Inr (), s')"
    and data: "getitem (arm s) fieldA = Inr dataA" "first_coord (arm s) dataA = Inr xA"
    and gap: "add_nan optsA \<longrightarrow>
       x_extent (fst (add_in_nan h (vals xA) (vals dataA))) = x_extent (vals xA)"
  shows "\<exists>lo hi. x_extent (vals xA) = Inr (lo, hi)
           \<and> (\<forall>ts. vals xA = Times ts \<longrightarrow>
                 ts \<noteq> [] \<and> lo = XTime (Min (set ts)) \<and> hi = XTime (Max (set ts)))
           \<and> (\<forall>xs. vals xA = Nums xs \<longrightarrow>
                 xs \<noteq> [] \<and> lo = XNum (Min (set xs)) \<and> hi = XNum (Max (set xs)))
           \<and> time_rng s' = Some (lo, hi)
           \<and> (\<forall>(field, i, opts) \<in> set ((fieldA, iA, optsA) # calls).
                 \<exists>ax. axis_at s' i = Some ax \<and> xlim ax = Some (lo, hi))"
proof -
  from run obtain v s1 where 1: "plot h fieldA iA optsA s = (Inr v, s1)"
    and 2: "plot_all h calls s1 = (Inr (), s')"
    by (auto split: prod.splits sum.splits)
  obtain r where k: "keeps_range r iA s1"
    and ext: "x_extent (vals xA) = Inr r"
    using plot_sets_range [OF 1] none data gap by (auto split: if_splits)
  obtain lo hi where r: "r = (lo, hi)" by (cases r)
  have t1: "time_rng s1 = Some r" using k by (simp add: keeps_range_def)
  have first: "keeps_range r iA s'" by (rule plot_all_keeps_range [OF 2 k])
  have rest: "keeps_range r i s'" if "(field, i, opts) \<in> set calls" for field i opts
    using that by (rule plot_all_sets_range [OF 2 t1])
  have "time_rng s' = Some (lo, hi)" using first r by (simp add: keeps_range_def)
  moreover have "\<forall>(field, i, opts) \<in> set ((fieldA, iA, optsA) # calls).
      \<exists>ax. axis_at s' i = Some ax \<and> xlim ax = Some (lo, hi)"
    using first rest r by (auto simp: keeps_range_def)
  moreover have "\<forall>ts. vals xA = Times ts \<longrightarrow>
      ts \<noteq> [] \<and> lo = XTime (Min (set ts)) \<and> hi = XTime (Max (set ts))"
    using ext r x_extent_Times by auto
  moreover have "\<forall>xs. vals xA = Nums xs \<longrightarrow>
      xs \<noteq> [] \<and> lo = XNum (Min (set xs)) \<and> hi = XNum (Max (set xs))"
    using ext r x_extent_Nums by auto
  ultimately show ?thesis using ext r by blast
qed

theorem shared_time_range_witness:
  "time_rng sample_session = None \<and>
   plot_all sample_helpers [(''temp'', [0], default_opts), (''refl'', [1], default_opts)]
       sample_session
     = (Inr (), snd (plot_all sample_helpers
          [(''temp'', [0], default_opts), (''refl'', [1], default_opts)] sample_session)) \<and>
   time_rng (snd (plot_all sample_helpers
          [(''temp'', [0], default_opts), (''refl'', [1], default_opts)] sample_session))
     = Some (XTime 3600000000000, XTime 90000000000000) \<and>
   map_option xlim (axis_at (snd (plot_all sample_helpers
          [(''temp'', [0], default_opts), (''refl'', [1], default_opts)] sample_session)) [0])
     = Some (Some (XTime 3600000000000, XTime 90000000000000)) \<and>
   map_option xlim (axis_at (snd (plot_all sample_helpers
          [(''temp'', [0], default_opts), (''refl'', [1], default_opts)] sample_session)) [1])
     = Some (Some (XTime 3600000000000, XTime 90000000000000)) \<and>
   plot_all sample_helpers [(''height'', [0], default_opts)] sample_session
     = (Inr (), snd (plot_all sample_helpers [(''height'', [0], default_opts)]
                      sample_session)) \<and>
   time_rng (snd (plot_all sample_helpers [(''height'', [0], default_opts)] sample_session))
     = Some (XNum 0, XNum 100) \<and>
   map_option xlim (axis_at (snd (plot_all sample_helpers
          [(''height'', [0], default_opts)] sample_session)) [0])
     = Some (Some (XNum 0, XNum 100))"
  using shared_time_range [of sample_session sample_helpers "''height''" "[0]" default_opts
      "[]" "snd (plot_all sample_helpers [(''height'', [0], default_opts)] sample_session)"
      "\<lparr>dims = [''height''], units = Some ''m'', vals = Nums [0, 100]\<rparr>"
      "\<lparr>dims = [''height''], units = Some ''m'', vals = Nums [0, 100]\<rparr>"]
    shared_time_range [of sample_session sample_helpers "''temp''" "[0]" default_opts
      "[(''refl'', [1], default_opts)]"
      "snd (plot_all sample_helpers
          [(''temp'', [0], default_opts), (''refl'', [1], default_opts)] sample_session)"
      "\<lparr>dims = [''time''], units = Some ''C'', vals = Nums [1, 2, 3]\<rparr>"
      "\<lparr>dims = [''time''], units = None,
         vals = Times [3600000000000, 7200000000000, 90000000000000]\<rparr>"]
  by (simp add: sample_session_def axis_at_def run_defs sample_dataset_def sample_helpers_def
      numeral_2_eq_2)

subsection \<open>The tick format of a plot\<close>

lemma day_of_bounds: "day_of t * ns_per_day \<le> t \<and> t < (day_of t + 1) * ns_per_day"
proof -
  have pos: "0 < ns_per_day" by (simp add: ns_per_day_def)
  have "t = day_of t * ns_per_day + t mod ns_per_day"
    by (simp add: day_of_def)
  moreover have "0 \<le> t mod ns_per_day" "t mod ns_per_day < ns_per_day"
    using pos by simp_all
  ultimately show ?thesis by (simp add: algebra_simps)
qed

lemma same_shape_refl [simp]: "same_shape a a"
  by (cases a) simp_all

lemma same_shape_trans: "same_shape a b \<Longrightarrow> same_shape b c \<Longrightarrow> same_shape a c"
  by (cases "(a, b)" rule: same_shape.cases; cases c) simp_all

lemma map_length_upd_row:
  "k < length rows \<Longrightarrow> map length (rows[k := (rows ! k)[l := y]]) = map length rows"
  by (simp add: list_eq_iff_nth_eq nth_list_update)

lemma same_shape_upd: "same_shape a (axes_upd a i f)"
proof (cases "(a, i, f)" rule: axes_upd.cases)
  case (1 xs j g)
  then show ?thesis by (simp split: sum.splits)
next
  case (2 rows j0 j1 g)
  then show ?thesis
    by (auto split: sum.splits dest: norm_index_less simp: map_length_upd_row)
qed simp_all

lemma same_shape_fits: "same_shape a b \<Longrightarrow> fits_grid a st = fits_grid b st"
proof (cases "(a, b)" rule: same_shape.cases)
  case (3 rows rows')
  assume "same_shape a b"
  then have m: "map length rows = map length rows'" using 3 by simp
  then have l: "length rows = length rows'" by (metis length_map)
  have n: "length (rows ! k) = length (rows' ! k)" if "k < length rows" for k
    using m that l by (metis nth_map)
  show ?thesis
  proof (cases st)
    case (Store1 x)
    then show ?thesis using 3 by simp
  next
    case (Store2 srows)
    then show ?thesis using 3 l n by (auto simp: list_all2_conv_all_nth)
  qed
qed (cases st; simp)+

lemma same_shape_zeros: "same_shape a b \<Longrightarrow> zeros_like_axes a z = zeros_like_axes b z"
proof (cases "(a, b)" rule: same_shape.cases)
  case (3 rows rows')
  assume "same_shape a b"
  then have m: "map length rows = map length rows'" using 3 by simp
  then have "length rows = length rows'" by (metis length_map)
  moreover have "(case rows of [] \<Rightarrow> 0 | r # x \<Rightarrow> length r) = (case rows' of [] \<Rightarrow> 0 | r # x \<Rightarrow> length r)"
    using m by (cases rows; cases rows') simp_all
  ultimately show ?thesis using 3 by (simp add: zeros_like_axes_def)
qed (simp_all add: zeros_like_axes_def)

lemma xrng_fits_cong:
  "xrng t = xrng s \<Longrightarrow> same_shape (grid_of s) (grid_of t) \<Longrightarrow> xrng_fits t = xrng_fits s"
proof -
  assume x: "xrng t = xrng s" and sh: "same_shape (grid_of s) (grid_of t)"
  have f: "fits_grid (grid_of t) st = fits_grid (grid_of s) st" for st :: "int store"
    by (rule same_shape_fits [OF sh, symmetric])
  have z: "zeros_like_axes (grid_of t) (0::int) = zeros_like_axes (grid_of s) 0"
    by (rule same_shape_zeros [OF sh, symmetric])
  show ?thesis
    unfolding xrng_fits_def x z f ..
qed

lemma set_xrng_stores:
  assumes "set_xrng (a, b) idx s = (Inr u, s')" "xrng_fits s"
  shows "\<exists>st ax. xrng s' = Some st
           \<and> store_get st idx = Inr (Pairs [(to_day a, to_day b)])
           \<and> xrng_days st idx = Inr [to_day b - to_day a]
           \<and> axis_at s' idx = Some ax \<and> time_rng s' = time_rng s \<and> yrng s' = yrng s"
proof -
  obtain arr ax st0 st' where arr: "axes s = Some arr"
    and ax: "axes_get arr idx = Inr (Elem ax)"
    and st0: "case xrng s of None \<Rightarrow> zeros_like_axes arr 0 = Inr st0 | Some st \<Rightarrow> st0 = st"
    and set: "store_set st0 idx (to_day a, to_day b) = Inr st'"
    and s': "s' = s\<lparr>axes := Some (axes_upd arr idx (\<lambda>ax. ax\<lparr>xlim := Some (a, b)\<rparr>)),
                    xrng := Some st'\<rparr>"
    using set_xrng_success [OF assms(1)] by auto
  have fits: "fits_grid arr st0"
    using assms(2) arr st0 by (auto simp: xrng_fits_def grid_of_def split: option.splits sum.splits)
  have rt: "store_get st' idx = Inr (Pairs [(to_day a, to_day b)])"
      "xrng_days st' idx = Inr [to_day b - to_day a]"
    using store_round_trip [OF ax fits set] by simp_all
  have "axis_at s' idx = Some (ax\<lparr>xlim := Some (a, b)\<rparr>)"
    by (simp add: s' axis_at_def axes_get_upd_same [OF ax])
  then show ?thesis using rt by (simp add: s')
qed

lemma ensure_figure_success:
  assumes "ensure_figure s = (Inr u, s1)"
  shows "axes s1 = Some (grid_of s) \<and> xrng s1 = xrng s \<and> time_rng s1 = time_rng s
       \<and> yrng s1 = yrng s"
  using assms
  by (cases "fig s"; cases "axes s") (auto simp: ensure_figure_def thenE_apply grid_of_def)

lemma on_axis_success_elim:
  assumes "on_axis idx f s = (Inr u, s')"
  shows "\<exists>arr ax. axes s = Some arr \<and> axes_get arr idx = Inr (Elem ax)
           \<and> s' = s\<lparr>axes := Some (axes_upd arr idx f)\<rparr>"
  using assms
  by (auto simp: on_axis_def get_axis_def bindE_apply liftE_apply
      split: option.splits sum.splits item.splits)

lemma add_colorbar_success:
  assumes "add_colorbar m t idx s = (Inr c, s')"
  shows "\<exists>g. s' = s\<lparr>fig := g, cbs := cbs s @ [c]\<rparr>"
  using assms get_axis_state [of idx s]
  by (cases "get_axis idx s")
     (auto simp: add_colorbar_def thenE_apply bindE_apply whenE_def Let_def
      split: option.splits sum.splits fig_attr.splits if_splits item.splits)

lemma set_y_limit_success:
  assumes "set_y_limit ydata idx s = (Inr u, s')"
  shows "s' = s"
proof (cases "yrng s")
  case None
  then show ?thesis using assms by (simp add: set_y_limit_def)
next
  case (Some st)
  then show ?thesis using set_y_limit_fails [OF Some, of ydata idx] assms by simp
qed

lemma set_x_limit_stores:
  assumes "set_x_limit x idx s = (Inr u, s')" "xrng_fits s"
  shows "\<exists>lo hi st ax. time_rng s' = Some (lo, hi) \<and> xrng s' = Some st
           \<and> store_get st idx = Inr (Pairs [(to_day lo, to_day hi)])
           \<and> xrng_days st idx = Inr [to_day hi - to_day lo]
           \<and> axis_at s' idx = Some ax"
proof (cases "time_rng s")
  case (Some r)
  obtain lo hi where r: "r = (lo, hi)" by (cases r)
  have "set_xrng (lo, hi) idx s = (Inr u, s')"
    using assms(1) Some r by (simp add: set_x_limit_def thenE_apply)
  from set_xrng_stores [OF this assms(2)] Some r show ?thesis by auto
next
  case None
  then obtain r where run: "set_xrng r idx (s\<lparr>time_rng := Some r\<rparr>) = (Inr u, s')"
    using assms(1) by (cases "x_extent x") (simp_all add: set_x_limit_def thenE_apply)
  obtain lo hi where r: "r = (lo, hi)" by (cases r)
  have g: "grid_of (s\<lparr>time_rng := Some r\<rparr>) = grid_of s"
    by (simp add: grid_of_def)
  have x: "xrng (s\<lparr>time_rng := Some r\<rparr>) = xrng s"
    by simp
  have fits: "xrng_fits (s\<lparr>time_rng := Some r\<rparr>)"
    using assms(2) unfolding xrng_fits_def g x .
  from set_xrng_stores [OF run [unfolded r] fits [unfolded r]] show ?thesis by auto
qed

lemma plot_formats_from_store:
  assumes ok: "plot h field idx opts s = (Inr u, s')" and fits: "xrng_fits s"
  shows "\<exists>lo hi st ax. time_rng s' = Some (lo, hi) \<and> xrng s' = Some st
           \<and> store_get st idx = Inr (Pairs [(to_day lo, to_day hi)])
           \<and> axis_at s' idx = Some ax
           \<and> major_formatter ax = Some (get_date_format h [to_day hi - to_day lo])"
proof -
  from ok obtain data xdata ydata x mesh yt s1 s2 s3 s4 s5 s6 s7 where
    1: "ensure_figure s = (Inr (), s1)"
    and 2: "draw_field h data xdata ydata idx opts s1 = (Inr (x, mesh), s2)"
    and 3: "put_title field idx opts s2 = (Inr (), s3)"
    and 4: "on_axis idx (\<lambda>ax. ax\<lparr>ylabel := Some yt\<rparr>) s3 = (Inr (), s4)"
    and 5: "set_x_limit x idx s4 = (Inr (), s5)"
    and 6: "set_y_limit ydata idx s5 = (Inr (), s6)"
    and 7: "set_x_format h idx s6 = (Inr (), s7)"
    and 8: "mesh = None \<and> s' = s7 \<or> (\<exists>m t c. add_colorbar m t idx s7 = (Inr c, s'))"
    by (rule plot_success)
  let ?Q = "\<lambda>t. xrng t = xrng s \<and> (\<exists>a. axes t = Some a \<and> same_shape (grid_of s) a)"
  have gc: "grid_closed ?Q"
    unfolding grid_closed_def
    by (auto intro: same_shape_trans [OF _ same_shape_upd])
  have q1: "?Q s1" using ensure_figure_success [OF 1] by simp
  have q2: "?Q s2" by (rule preservesD [OF closed_draw_field [OF gc] q1 2])
  have q3: "?Q s3" by (rule preservesD [OF closed_put_title [OF gc] q2 3])
  have q4: "?Q s4" by (rule preservesD [OF closed_on_axis [OF gc] q3 4]) simp
  have f4: "xrng_fits s4"
    using q4 fits xrng_fits_cong [of s4 s] by (auto simp: grid_of_def)
  obtain lo hi st ax where t5: "time_rng s5 = Some (lo, hi)" and x5: "xrng s5 = Some st"
    and g5: "store_get st idx = Inr (Pairs [(to_day lo, to_day hi)])"
    and d5: "xrng_days st idx = Inr [to_day hi - to_day lo]"
    and a5: "axis_at s5 idx = Some ax"
    using set_x_limit_stores [OF 5 f4] by blast
  have s6: "s6 = s5" using set_y_limit_success [OF 6] .
  let ?f = "\<lambda>ax. ax\<lparr>major_formatter := Some (get_date_format h [to_day hi - to_day lo])\<rparr>"
  have "on_axis idx ?f s5 = (Inr (), s7)"
    using 7 x5 d5 by (simp add: set_x_format_def s6)
  then obtain arr ax' where arr: "axes s5 = Some arr" "axes_get arr idx = Inr (Elem ax')"
    and s7: "s7 = s5\<lparr>axes := Some (axes_upd arr idx ?f)\<rparr>"
    using on_axis_success_elim by blast
  have a7: "axis_at s7 idx = Some (?f ax')"
    by (simp add: s7 axis_at_def axes_get_upd_same [OF arr(2)])
  have r7: "time_rng s7 = Some (lo, hi)" "xrng s7 = Some st"
    using t5 x5 by (simp_all add: s7)
  from 8 have "axis_at s' idx = Some (?f ax') \<and> time_rng s' = Some (lo, hi) \<and> xrng s' = Some st"
  proof
    assume "mesh = None \<and> s' = s7"
    then show ?thesis using a7 r7 by simp
  next
    assume "\<exists>m t c. add_colorbar m t idx s7 = (Inr c, s')"
    then obtain m t c where "add_colorbar m t idx s7 = (Inr c, s')" by blast
    then obtain g where "s' = s7\<lparr>fig := g, cbs := cbs s7 @ [c]\<rparr>"
      using add_colorbar_success by blast
    then show ?thesis using a7 r7 by (simp add: axis_at_def)
  qed
  then show ?thesis using g5 by auto
qed

text \<open>
  On a session whose x-range store has the shape of the grid (or has not been
  allocated yet), a successful \<open>set_xrng (a, b)\<close> leaves at the index the pair of
  \<open>a\<close> and \<open>b\<close> cut down to whole days, with a day count of zero when both fall on
  one day; and after a \<open>plot\<close> that returns, the store holds at the index the
  session's time range cut down to whole days and the tick format of the subplot is the
  one chosen for the difference of these two stored days. A time sample is cut down to
  the day it falls on.
\<close>

lemma stored_days_on_fitting_store:
  assumes "xrng_fits s"
  shows "(set_xrng (a, b) i s = (Inr (), s1) \<longrightarrow>
            (\<exists>st. xrng s1 = Some st
                \<and> store_get st i = Inr (Pairs [(to_day a, to_day b)])
                \<and> xrng_days st i = Inr [to_day b - to_day a]
                \<and> (to_day a = to_day b \<longrightarrow> xrng_days st i = Inr [0])))
       \<and> (plot h field j opts s = (Inr (), s2) \<longrightarrow>
            (\<exists>lo hi st ax. time_rng s2 = Some (lo, hi) \<and> xrng s2 = Some st
                \<and> store_get st j = Inr (Pairs [(to_day lo, to_day hi)])
                \<and> axis_at s2 j = Some ax
                \<and> major_formatter ax = Some (get_date_format h [to_day hi - to_day lo])
                \<and> (to_day lo = to_day hi \<longrightarrow>
                      major_formatter ax = Some (get_date_format h [0]))))
       \<and> to_day (XTime t) * ns_per_day \<le> t \<and> t < (to_day (XTime t) + 1) * ns_per_day"
proof (intro conjI impI)
  assume "set_xrng (a, b) i s = (Inr (), s1)"
  from set_xrng_stores [OF this assms]
  show "\<exists>st. xrng s1 = Some st
          \<and> store_get st i = Inr (Pairs [(to_day a, to_day b)])
          \<and> xrng_days st i = Inr [to_day b - to_day a]
          \<and> (to_day a = to_day b \<longrightarrow> xrng_days st i = Inr [0])"
    by auto
next
  assume "plot h field j opts s = (Inr (), s2)"
  from plot_formats_from_store [OF this assms]
  show "\<exists>lo hi st ax. time_rng s2 = Some (lo, hi) \<and> xrng s2 = Some st
          \<and> store_get st j = Inr (Pairs [(to_day lo, to_day hi)])
          \<and> axis_at s2 j = Some ax
          \<and> major_formatter ax = Some (get_date_format h [to_day hi - to_day lo])
          \<and> (to_day lo = to_day hi \<longrightarrow> major_formatter ax = Some (get_date_format h [0]))"
    by fastforce
next
  show "to_day (XTime t) * ns_per_day \<le> t" "t < (to_day (XTime t) + 1) * ns_per_day"
    using day_of_bounds [of t] by simp_all
qed

text \<open>
  Claim C9 says that after every successful \<open>set_xrng\<close> the store holds at the index
  the range cut down to whole days, and that the day count \<open>plot\<close> hands to the
  tick-format chooser is the difference of the two stored days. Lines 191 to 194 size
  the store to the grid, but only once: \<open>add_subplots\<close> leaves the store as it is. On
  a session whose store was made for two rows and two columns and whose grid has been
  rebuilt with two rows, \<open>set_xrng\<close> on subplot \<open>(0,)\<close> with a range of three days
  succeeds and leaves two pairs at the index, and the day count read back is the pair
  of zeros; a \<open>plot\<close> on that session returns with a time range that spans one day and
  a tick format chosen for the pair of zeros.
\<close>

theorem regridded_store_day_count:
  "fst (set_xrng (XTime 0, XTime 259200000000000) [0] regridded_session) = Inr () \<and>
   xrng (snd (set_xrng (XTime 0, XTime 259200000000000) [0] regridded_session))
     = Some (Store2 [[(0, 3), (0, 3)], [(0, 0), (0, 0)]]) \<and>
   store_get (Store2 [[(0, 3), (0, 3)], [(0, 0), (0, 0)]]) [0] = Inr (Pairs [(0, 3), (0, 3)]) \<and>
   xrng_days (Store2 [[(0, 3), (0, 3)], [(0, 0), (0, 0)]]) [0] = Inr [0, 0] \<and>
   fst (plot sample_helpers ''temp'' [0] default_opts regridded_session) = Inr () \<and>
   time_rng (snd (plot sample_helpers ''temp'' [0] default_opts regridded_session))
     = Some (XTime 3600000000000, XTime 90000000000000) \<and>
   xrng (snd (plot sample_helpers ''temp'' [0] default_opts regridded_session))
     = Some (Store2 [[(0, 1), (0, 1)], [(0, 0), (0, 0)]]) \<and>
   map_option major_formatter
       (axis_at (snd (plot sample_helpers ''temp'' [0] default_opts regridded_session)) [0])
     = Some (Some (get_date_format sample_helpers [0, 0]))"
  by (simp add: regridded_session_def axis_at_def run_defs sample_dataset_def
      sample_helpers_def numeral_2_eq_2)

end
